theory Spec2Isabelle
  imports Complex_Main "HOL-Library.AList"
begin

section \<open>Python values used by the kiosk chatbot (src/main.py)\<close>

text \<open>
  A Python \<open>str\<close> is modelled as a \<open>string\<close> in which every \<open>char\<close> stands for one
  code point below 256, so \<open>length\<close> is Python's \<open>len\<close>. An insertion-ordered \<open>dict\<close> is an
  association list with distinct keys: \<open>map_of\<close> reads a key, \<open>AList.update\<close> overwrites a
  key in place or appends a new one at the end, \<open>AList.delete\<close> removes a key.
  A \<open>datetime\<close> is an integer count of microseconds, a \<open>timedelta\<close> the difference of two.
\<close>

definition py_isspace :: "char \<Rightarrow> bool" where
  "py_isspace c =
     (let n = (of_char c :: nat)
      in (9 \<le> n \<and> n \<le> 13) \<or> (28 \<le> n \<and> n \<le> 32) \<or> n = 133 \<or> n = 160)"

definition py_strip :: "string \<Rightarrow> string" where
  "py_strip s = rev (dropWhile py_isspace (rev (dropWhile py_isspace s)))"

definition py_lower_char :: "char \<Rightarrow> char" where
  "py_lower_char c =
     (let n = (of_char c :: nat)
      in if (65 \<le> n \<and> n \<le> 90) \<or> (192 \<le> n \<and> n \<le> 214) \<or> (216 \<le> n \<and> n \<le> 222)
         then char_of (n + 32) else c)"

definition py_lower :: "string \<Rightarrow> string" where
  "py_lower s = map py_lower_char s"

text \<open>
  Exceptions are values. \<open>ValueError\<close> and \<open>KeyError\<close> are the two the modelled code can
  raise by itself (\<open>min\<close> of an empty sequence, a missing dictionary key), \<open>ImportError\<close>
  the one of \<open>_create_model\<close>; \<open>ExternalError\<close> is
  any exception of class \<open>Exception\<close> raised by a collaborator, carrying its \<open>str\<close> text.
\<close>

datatype py_exception =
  ValueError string | KeyError string | ImportError string | ExternalError string

fun str_exception :: "py_exception \<Rightarrow> string" where
  "str_exception (ValueError msg) = msg"
| "str_exception (KeyError k) = [CHR 0x27] @ k @ [CHR 0x27]"
| "str_exception (ImportError msg) = msg"
| "str_exception (ExternalError msg) = msg"

definition timedelta_hours :: "int \<Rightarrow> int" where
  "timedelta_hours h = h * 3600000000"

section \<open>IntelligentCache\<close>

record cache_entry =
  response :: string
  timestamp :: int
  hits :: int

record IntelligentCache =
  ttl_hours :: int
  max_size :: int
  cache :: "(string \<times> cache_entry) list"

text \<open>\<open>IntelligentCache.__init__\<close>; the lock is not modelled (one caller at a time).\<close>

definition IntelligentCache_init :: "int \<Rightarrow> int \<Rightarrow> IntelligentCache" where
  "IntelligentCache_init ttl msize = \<lparr>ttl_hours = ttl, max_size = msize, cache = []\<rparr>"

text \<open>
  \<open>_generate_key\<close>: the hexadecimal MD5 digest of the encoded text is the library function
  \<open>md5_hexdigest\<close>, a parameter.
\<close>

definition generate_key :: "(string \<Rightarrow> string) \<Rightarrow> string \<Rightarrow> string \<Rightarrow> string" where
  "generate_key md5_hexdigest query context = md5_hexdigest (py_strip (py_lower query) @ context)"

text \<open>\<open>get\<close>, with the reading \<open>now\<close> of \<open>datetime.now()\<close> as an argument.\<close>

definition cache_get ::
  "(string \<Rightarrow> string) \<Rightarrow> int \<Rightarrow> IntelligentCache \<Rightarrow> string \<Rightarrow> string
     \<Rightarrow> string option \<times> IntelligentCache" where
  "cache_get md5_hexdigest now c query context =
     (let key = generate_key md5_hexdigest query context
      in case map_of (cache c) key of
           None \<Rightarrow> (None, c)
         | Some entry \<Rightarrow>
             if now - timestamp entry < timedelta_hours (ttl_hours c)
             then (Some (response entry),
                   c\<lparr>cache := AList.update key (entry\<lparr>hits := hits entry + 1\<rparr>) (cache c)\<rparr>)
             else (None, c\<lparr>cache := AList.delete key (cache c)\<rparr>))"

text \<open>
  Python's \<open>min(keys, key=...)\<close>: the first key, in iteration order, whose timestamp is
  minimal; a later key replaces the candidate only when it is strictly smaller.
\<close>

fun min_timestamp :: "string \<times> cache_entry \<Rightarrow> (string \<times> cache_entry) list \<Rightarrow> string \<times> cache_entry" where
  "min_timestamp best [] = best"
| "min_timestamp best (x # xs) =
     min_timestamp (if timestamp (snd x) < timestamp (snd best) then x else best) xs"

text \<open>\<open>set\<close>: \<open>min\<close> raises \<open>ValueError\<close> on an empty dictionary, before anything is changed.\<close>

definition cache_set ::
  "(string \<Rightarrow> string) \<Rightarrow> int \<Rightarrow> IntelligentCache \<Rightarrow> string \<Rightarrow> string \<Rightarrow> string
     \<Rightarrow> py_exception + IntelligentCache" where
  "cache_set md5_hexdigest now c query resp context =
     (let key = generate_key md5_hexdigest query context;
          new = \<lparr>response = resp, timestamp = now, hits = 0\<rparr>
      in if max_size c \<le> int (length (cache c))
         then (case cache c of
                 [] \<Rightarrow> Inl (ValueError ''min() arg is an empty sequence'')
               | x # xs \<Rightarrow>
                   let oldest_key = fst (min_timestamp x xs)
                   in Inr (c\<lparr>cache := AList.update key new (AList.delete oldest_key (cache c))\<rparr>))
         else Inr (c\<lparr>cache := AList.update key new (cache c)\<rparr>))"

text \<open>
  A sequence of calls on one cache. A \<open>set\<close> that raises leaves the cache as it was and the
  caller goes on (as \<open>process_query\<close> does, which catches the exception).
\<close>

datatype cache_op = Get int string string | Set int string string string

fun apply_cache_op :: "(string \<Rightarrow> string) \<Rightarrow> IntelligentCache \<Rightarrow> cache_op \<Rightarrow> IntelligentCache" where
  "apply_cache_op md5_hexdigest c (Get now query context) = snd (cache_get md5_hexdigest now c query context)"
| "apply_cache_op md5_hexdigest c (Set now query resp context) =
     (case cache_set md5_hexdigest now c query resp context of Inl e \<Rightarrow> c | Inr c' \<Rightarrow> c')"

definition run_cache_ops :: "(string \<Rightarrow> string) \<Rightarrow> cache_op list \<Rightarrow> IntelligentCache \<Rightarrow> IntelligentCache" where
  "run_cache_ops md5_hexdigest ops c = foldl (apply_cache_op md5_hexdigest) c ops"

text \<open>The dictionary is well formed (distinct keys) and within its capacity.\<close>

definition cache_inv :: "IntelligentCache \<Rightarrow> bool" where
  "cache_inv c \<longleftrightarrow> distinct (map fst (cache c)) \<and> int (length (cache c)) \<le> max_size c"

section \<open>MultiModelAIManager\<close>

text \<open>
  \<open>ModelProvider\<close> has the single member \<open>OLLAMA\<close> in the source. Only the configuration
  fields that the modelled functions read are kept in \<open>KioskConfig\<close>.
\<close>

datatype ModelProvider = OLLAMA

fun provider_value :: "ModelProvider \<Rightarrow> string" where
  "provider_value OLLAMA = ''ollama''"

record KioskConfig =
  primary_model_provider :: ModelProvider
  primary_model_name :: string
  fallback_models :: "(ModelProvider \<times> string) list"
  max_tokens :: int
  temperature :: real
  timeout :: real
  context_window_size :: int
  cache_ttl_hours :: int
  default_language :: string
  enable_content_filtering :: bool
  max_input_length :: int
  enable_analytics :: bool

record OllamaLLM =
  model :: string
  llm_temperature :: real
  llm_timeout :: real
  num_predict :: int

record ModelHealth =
  healthy :: bool
  last_error :: "string option"

text \<open>
  What a model call returns. \<open>WithContent\<close> is an object that has an attribute \<open>content\<close>,
  \<open>DictResult\<close> a \<open>dict\<close>, \<open>ListResult\<close> a \<open>list\<close>, \<open>PlainStr\<close> a \<open>str\<close>, \<open>OtherObject\<close> any
  other object (named by a tag). A field or element is a \<open>str\<close> (\<open>Str\<close>) or another value,
  given by the text that \<open>str()\<close> yields for it (\<open>NonStr\<close>).
\<close>

datatype py_value = Str string | NonStr string

fun py_str :: "py_value \<Rightarrow> string" where
  "py_str (Str s) = s"
| "py_str (NonStr r) = r"

datatype raw_result =
    PlainStr string
  | WithContent py_value
  | DictResult "(string \<times> py_value) list"
  | ListResult "py_value list"
  | OtherObject string

text \<open>
  The collaborators outside the repository: the flag set by the LangChain import, the
  \<open>OllamaLLM\<close> constructor (the exception it raises for a model name, if any), one call of
  \<open>chain.invoke\<close> (by model key, model, context sent and question: every candidate is called
  at most once in a \<open>get_response\<close>), Python's \<open>str()\<close> on a result that is not a \<open>str\<close>,
  \<open>hashlib.md5(...).hexdigest()\<close>, the translation service, and the exception that the
  analytics database raises on an insert, if any.
\<close>

record environment =
  LANGCHAIN_AVAILABLE :: bool
  ollama_error :: "string \<Rightarrow> py_exception option"
  chain_invoke :: "string \<Rightarrow> OllamaLLM \<Rightarrow> string \<Rightarrow> string \<Rightarrow> py_exception + raw_result"
  builtin_str :: "raw_result \<Rightarrow> string"
  hashlib_md5 :: "string \<Rightarrow> string"
  google_translate :: "string \<Rightarrow> string \<Rightarrow> string \<Rightarrow> py_exception + string option"
  db_insert_error :: "string \<times> string \<times> string \<times> real \<times> bool \<times> string \<Rightarrow> py_exception option"

text \<open>
  The manager. \<open>invoke_log\<close> is not a field of the source: it records every call of
  \<open>chain.invoke\<close> (model key, context sent, question), as a call spy would.
\<close>

record MultiModelAIManager =
  current_model :: OllamaLLM
  models :: "(string \<times> OllamaLLM) list"
  model_health :: "(string \<times> ModelHealth) list"
  invoke_log :: "(string \<times> string \<times> string) list"

text \<open>\<open>_create_model\<close>: with the one provider, the first branch is always taken.\<close>

definition create_model ::
  "environment \<Rightarrow> KioskConfig \<Rightarrow> ModelProvider \<Rightarrow> string \<Rightarrow> py_exception + OllamaLLM" where
  "create_model env cfg provider model_name =
     (if \<not> LANGCHAIN_AVAILABLE env then Inl (ImportError ''LangChain not available'')
      else case provider of
             OLLAMA \<Rightarrow>
               (case ollama_error env model_name of
                  Some e \<Rightarrow> Inl e
                | None \<Rightarrow> Inr \<lparr>model = model_name, llm_temperature = temperature cfg,
                               llm_timeout = timeout cfg, num_predict = max_tokens cfg\<rparr>))"

definition model_key_of :: "ModelProvider \<Rightarrow> string \<Rightarrow> string" where
  "model_key_of provider model_name = provider_value provider @ ''_'' @ model_name"

text \<open>
  The loop over \<open>fallback_models\<close> in \<open>initialize_models\<close>: a fallback whose creation raises
  is skipped (the exception is logged), leaving both dictionaries as they were.
\<close>

fun init_fallbacks ::
  "environment \<Rightarrow> KioskConfig \<Rightarrow> (ModelProvider \<times> string) list
     \<Rightarrow> (string \<times> OllamaLLM) list \<times> (string \<times> ModelHealth) list
     \<Rightarrow> (string \<times> OllamaLLM) list \<times> (string \<times> ModelHealth) list" where
  "init_fallbacks env cfg [] acc = acc"
| "init_fallbacks env cfg ((provider, model_name) # rest) (ms, hs) =
     (let model_key = model_key_of provider model_name
      in case create_model env cfg provider model_name of
           Inl e \<Rightarrow> init_fallbacks env cfg rest (ms, hs)
         | Inr m \<Rightarrow>
             init_fallbacks env cfg rest
               (AList.update model_key m ms,
                AList.update model_key \<lparr>healthy = True, last_error = None\<rparr> hs))"

text \<open>\<open>__init__\<close> with \<open>initialize_models\<close>: a failure of the primary model is raised again.\<close>

definition initialize_models :: "environment \<Rightarrow> KioskConfig \<Rightarrow> py_exception + MultiModelAIManager" where
  "initialize_models env cfg =
     (case create_model env cfg (primary_model_provider cfg) (primary_model_name cfg) of
        Inl e \<Rightarrow> Inl e
      | Inr primary \<Rightarrow>
          let (ms, hs) = init_fallbacks env cfg (fallback_models cfg) ([], [])
          in Inr \<lparr>current_model = primary, models = ms, model_health = hs, invoke_log = []\<rparr>)"

text \<open>Python's \<open>s[:n]\<close>: a negative \<open>n\<close> counts from the end.\<close>

definition py_slice_to :: "string \<Rightarrow> int \<Rightarrow> string" where
  "py_slice_to s n = (if 0 \<le> n then take (nat n) s else take (length s - nat (- n)) s)"

text \<open>The chain of tests on the shape of the result in \<open>get_response\<close>, in the source's order.\<close>

definition normalize_response :: "(raw_result \<Rightarrow> string) \<Rightarrow> raw_result \<Rightarrow> string" where
  "normalize_response to_str result =
     (case result of
        WithContent content \<Rightarrow> py_strip (py_str content)
      | DictResult d \<Rightarrow>
          (case map_of d ''text'' of
             Some t \<Rightarrow> py_strip (py_str t)
           | None \<Rightarrow> py_strip (to_str result))
      | ListResult (x # xs) \<Rightarrow> py_strip (py_str x)
      | ListResult [] \<Rightarrow> py_strip (to_str result)
      | PlainStr s \<Rightarrow> py_strip s
      | OtherObject tag \<Rightarrow> py_strip (to_str result))"

definition technical_difficulties :: string where
  "technical_difficulties =
     ''I'' @ [CHR 0x27] @ ''m experiencing technical difficulties. Please try again in a moment.''"

text \<open>
  The body of the \<open>try\<close> for one candidate: the call, the normalisation, and the health
  update of a fallback (a missing health record raises \<open>KeyError\<close> inside the \<open>try\<close>).
\<close>

definition try_candidate ::
  "environment \<Rightarrow> string \<Rightarrow> OllamaLLM \<Rightarrow> string \<Rightarrow> string \<Rightarrow> MultiModelAIManager
     \<Rightarrow> py_exception + string \<times> MultiModelAIManager" where
  "try_candidate env model_key mdl sent prompt mgr =
     (case chain_invoke env model_key mdl sent prompt of
        Inl e \<Rightarrow> Inl e
      | Inr result \<Rightarrow>
          let resp = normalize_response (builtin_str env) result
          in if model_key \<noteq> ''primary''
             then (case map_of (model_health mgr) model_key of
                     None \<Rightarrow> Inl (KeyError model_key)
                   | Some h \<Rightarrow>
                       Inr (resp, mgr\<lparr>model_health :=
                              AList.update model_key (h\<lparr>healthy := True\<rparr>) (model_health mgr)\<rparr>))
             else Inr (resp, mgr))"

text \<open>
  The loop of \<open>get_response\<close> over the remaining candidates; \<open>n\<close> is \<open>len(self.models)\<close> and
  \<open>attempt\<close> the index that \<open>enumerate\<close> gives.
\<close>

fun attempt_models ::
  "environment \<Rightarrow> KioskConfig \<Rightarrow> string \<Rightarrow> string \<Rightarrow> nat \<Rightarrow> nat \<Rightarrow> (string \<times> OllamaLLM) list
     \<Rightarrow> MultiModelAIManager \<Rightarrow> (string \<times> string) \<times> MultiModelAIManager" where
  "attempt_models env cfg prompt context n attempt [] mgr =
     ((''Service temporarily unavailable.'', ''error''), mgr)"
| "attempt_models env cfg prompt context n attempt ((model_key, mdl) # rest) mgr =
     (let sent = py_slice_to context (context_window_size cfg);
          mgr1 = mgr\<lparr>invoke_log := invoke_log mgr @ [(model_key, sent, prompt)]\<rparr>
      in case try_candidate env model_key mdl sent prompt mgr1 of
           Inr (resp, mgr2) \<Rightarrow> ((resp, model_key), mgr2)
         | Inl e \<Rightarrow>
             let error_msg = str_exception e;
                 mgr2 = (if model_key \<noteq> ''primary''
                         then mgr1\<lparr>model_health :=
                                AList.update model_key
                                  \<lparr>healthy = False, last_error = Some error_msg\<rparr>
                                  (model_health mgr1)\<rparr>
                         else mgr1)
             in if attempt = n then ((technical_difficulties, ''error''), mgr2)
                else attempt_models env cfg prompt context n (Suc attempt) rest mgr2)"

definition get_response ::
  "environment \<Rightarrow> KioskConfig \<Rightarrow> MultiModelAIManager \<Rightarrow> string \<Rightarrow> string
     \<Rightarrow> (string \<times> string) \<times> MultiModelAIManager" where
  "get_response env cfg mgr prompt context =
     attempt_models env cfg prompt context (length (models mgr)) 0
       ((''primary'', current_model mgr) # models mgr) mgr"

text \<open>
  Several calls of \<open>get_response\<close> on one manager, each with its own question, context and
  behaviour of the collaborators.
\<close>

fun run_get_responses ::
  "KioskConfig \<Rightarrow> (environment \<times> string \<times> string) list \<Rightarrow> MultiModelAIManager \<Rightarrow> MultiModelAIManager" where
  "run_get_responses cfg [] mgr = mgr"
| "run_get_responses cfg ((env, prompt, context) # calls) mgr =
     run_get_responses cfg calls (snd (get_response env cfg mgr prompt context))"

text \<open>
  The two dictionaries of the manager have the same keys in the same order, each once, and
  none is the key \<open>primary\<close>.
\<close>

definition manager_inv :: "MultiModelAIManager \<Rightarrow> bool" where
  "manager_inv mgr \<longleftrightarrow>
     map fst (model_health mgr) = map fst (models mgr) \<and>
     distinct (map fst (models mgr)) \<and>
     ''primary'' \<notin> set (map fst (models mgr))"

section \<open>UltraAdvancedKioskChatbot\<close>

text \<open>
  The session, the metadata of a turn and an entry of the conversation history. Of
  \<open>UserSession\<close> the fields that \<open>process_query\<close> reads or writes are kept; \<open>id\<close> is named
  \<open>session_id\<close>. The \<open>timestamp\<close> of a history entry is the \<open>datetime\<close> whose ISO text the
  source stores.
\<close>

record metadata =
  cached :: bool
  model_used :: string
  response_time :: real
  language :: string
  error :: "string option"

record history_entry =
  h_timestamp :: int
  question :: string
  h_response :: string
  h_metadata :: metadata

record UserSession =
  session_id :: string
  start_time :: int
  questions_count :: int
  total_response_time :: real
  preferred_language :: string
  conversation_history :: "history_entry list"
  errors_encountered :: int

text \<open>
  The chatbot. \<open>analytics\<close> holds the rows that \<open>log_interaction\<close> has inserted (session id,
  question, response, response time, cached, model used). Of the dictionary
  \<open>active_sessions\<close> only the keys are kept: no code reads a session back through it.
  \<open>translator\<close> says whether the accessibility engine has a translator.
  \<open>cache_log\<close> is not a field of the source: it records every call of \<open>cache.get\<close> and
  \<open>cache.set\<close>, as a call spy would. Floating-point times are real numbers here.
\<close>

record UltraAdvancedKioskChatbot =
  config :: KioskConfig
  kiosk_cache :: IntelligentCache
  cache_log :: "cache_op list"
  analytics :: "(string \<times> string \<times> string \<times> real \<times> bool \<times> string) list"
  ai_manager :: MultiModelAIManager
  translator :: bool
  active_sessions :: "string list"
  current_session :: "UserSession option"
  total_requests :: int
  cache_hits :: int

text \<open>The clock readings of one call of \<open>process_query\<close>, in the order of the source.\<close>

record clock =
  time_create :: real
  now_create :: int
  time_start :: real
  now_get :: int
  time_hit :: real
  now_set :: int
  time_done :: real
  now_turn :: int

text \<open>Python's \<open>str\<close> of an \<open>int\<close> and \<open>int\<close> of a \<open>float\<close> (truncation towards zero).\<close>

fun str_nat :: "nat \<Rightarrow> string" where
  "str_nat n = (if n < 10 then [char_of (48 + n)] else str_nat (n div 10) @ [char_of (48 + n mod 10)])"

definition str_int :: "int \<Rightarrow> string" where
  "str_int i = (if i < 0 then ''-'' @ str_nat (nat (- i)) else str_nat (nat i))"

definition int_of_float :: "real \<Rightarrow> int" where
  "int_of_float x = (if 0 \<le> x then \<lfloor>x\<rfloor> else \<lceil>x\<rceil>)"

fun py_join :: "string \<Rightarrow> string list \<Rightarrow> string" where
  "py_join sep [] = []"
| "py_join sep [x] = x"
| "py_join sep (x # y # rest) = x @ sep @ py_join sep (y # rest)"

text \<open>\<open>create_session\<close>: a key already in \<open>active_sessions\<close> keeps its place.\<close>

definition create_session ::
  "clock \<Rightarrow> UltraAdvancedKioskChatbot \<Rightarrow> UserSession \<times> UltraAdvancedKioskChatbot" where
  "create_session clk kiosk =
     (let sid = ''session_'' @ str_int (int_of_float (time_create clk)) @ ''_'' @
                str_int (int (length (active_sessions kiosk)));
          session = \<lparr>session_id = sid, start_time = now_create clk, questions_count = 0,
                     total_response_time = 0,
                     preferred_language = default_language (config kiosk),
                     conversation_history = [], errors_encountered = 0\<rparr>
      in (session,
          kiosk\<lparr>active_sessions := (if sid \<in> set (active_sessions kiosk) then active_sessions kiosk
                                   else active_sessions kiosk @ [sid]),
              current_session := Some session\<rparr>))"

text \<open>\<open>_format_conversation_context\<close>: the last three exchanges.\<close>

definition format_conversation_context :: "UserSession \<Rightarrow> string" where
  "format_conversation_context session =
     (if conversation_history session = [] then []
      else let recent = drop (length (conversation_history session) - 3) (conversation_history session)
           in py_join [CHR 0x0A]
                (concat (map (\<lambda>exchange. [''User: '' @ question exchange,
                                             ''Assistant: '' @ h_response exchange]) recent)))"

text \<open>
  \<open>_is_inappropriate_content\<close>. A pattern \<open>\b(?:w1|w2|...)\b\<close> is found in a text when one
  of the words stands at a position where the character before it (if any) and the
  character after it (if any) are not word characters. \<open>is_word_char\<close> is \<open>\w\<close> on the code
  points below 256.
\<close>

definition is_word_char :: "char \<Rightarrow> bool" where
  "is_word_char c =
     (let n = (of_char c :: nat)
      in (48 \<le> n \<and> n \<le> 57) \<or> (65 \<le> n \<and> n \<le> 90) \<or> n = 95 \<or> (97 \<le> n \<and> n \<le> 122) \<or>
         n = 170 \<or> n = 178 \<or> n = 179 \<or> n = 181 \<or> n = 185 \<or> n = 186 \<or>
         (188 \<le> n \<and> n \<le> 190) \<or> (192 \<le> n \<and> n \<le> 214) \<or> (216 \<le> n \<and> n \<le> 246) \<or>
         (248 \<le> n \<and> n \<le> 255))"

definition word_here :: "string \<Rightarrow> string \<Rightarrow> bool" where
  "word_here w text =
     (take (length w) text = w \<and>
      (case drop (length w) text of [] \<Rightarrow> True | c # cs \<Rightarrow> \<not> is_word_char c))"

fun search_word :: "string \<Rightarrow> bool \<Rightarrow> string \<Rightarrow> bool" where
  "search_word w after_word_char [] = False"
| "search_word w after_word_char (c # cs) =
     ((\<not> after_word_char \<and> word_here w (c # cs)) \<or> search_word w (is_word_char c) cs)"

definition inappropriate_patterns :: "string list list" where
  "inappropriate_patterns =
     [[''hack'', ''crack'', ''pirat'', ''illegal''],
      [''drug'', ''weapon'', ''violence''],
      [''hate'', ''discriminat'', ''racist'']]"

definition is_inappropriate_content :: "KioskConfig \<Rightarrow> string \<Rightarrow> bool" where
  "is_inappropriate_content cfg text =
     (if \<not> enable_content_filtering cfg then False
      else let text_lower = py_lower text
           in list_ex (\<lambda>pattern. list_ex (\<lambda>w. search_word w False text_lower) pattern)
                inappropriate_patterns)"

text \<open>
  \<open>translate_text\<close> of the accessibility engine (text, target language, source language):
  an exception of the service is caught there and gives \<open>None\<close>.
\<close>

definition translate_text :: "environment \<Rightarrow> bool \<Rightarrow> string \<Rightarrow> string \<Rightarrow> string \<Rightarrow> string option" where
  "translate_text env has_translator text target_language source_language =
     (if \<not> has_translator then None
      else case google_translate env source_language target_language text of
             Inl e \<Rightarrow> None
           | Inr r \<Rightarrow> r)"

text \<open>\<open>log_interaction\<close>: an exception of the database leaves the table as it was.\<close>

definition log_interaction ::
  "environment \<Rightarrow> (string \<times> string \<times> string \<times> real \<times> bool \<times> string) list
     \<Rightarrow> string \<times> string \<times> string \<times> real \<times> bool \<times> string
     \<Rightarrow> py_exception + (string \<times> string \<times> string \<times> real \<times> bool \<times> string) list" where
  "log_interaction env rows row =
     (case db_insert_error env row of Some e \<Rightarrow> Inl e | None \<Rightarrow> Inr (rows @ [row]))"

definition too_long_message :: string where
  "too_long_message = ''Please keep your question shorter for better assistance.''"

definition refusal_message :: string where
  "refusal_message = ''I can only help with appropriate questions. Please rephrase your request.''"

definition error_message :: string where
  "error_message = ''I encountered an error processing your request. Please try again.''"

text \<open>The session of the turn: the current one, or a new one when there is none.\<close>

definition ensure_session ::
  "clock \<Rightarrow> UltraAdvancedKioskChatbot \<Rightarrow> UserSession \<times> UltraAdvancedKioskChatbot" where
  "ensure_session clk kiosk =
     (case current_session kiosk of None \<Rightarrow> create_session clk kiosk | Some s \<Rightarrow> (s, kiosk))"

definition initial_metadata :: "UserSession \<Rightarrow> metadata" where
  "initial_metadata session =
     \<lparr>cached = False, model_used = ''unknown'', response_time = 0,
      language = preferred_language session, error = None\<rparr>"

text \<open>The response after the optional translation (an empty translation is not used).\<close>

definition post_process :: "environment \<Rightarrow> bool \<Rightarrow> UserSession \<Rightarrow> string \<Rightarrow> string" where
  "post_process env has_translator session resp =
     (if preferred_language session \<noteq> ''en''
      then (case translate_text env has_translator resp (preferred_language session) ''en'' of
              None \<Rightarrow> resp
            | Some translated \<Rightarrow> if translated \<noteq> [] then translated else resp)
      else resp)"

text \<open>
  The \<open>try\<close> block of \<open>process_query\<close>. The result is the returned response or the raised
  exception, with the metadata, the session and the chatbot as they are at that moment.
  With an exception comes a flag: whether the metadata dictionary has already been stored
  in the conversation history (the history entry shares it).
\<close>

definition try_block ::
  "environment \<Rightarrow> clock \<Rightarrow> UltraAdvancedKioskChatbot \<Rightarrow> UserSession \<Rightarrow> metadata \<Rightarrow> string
     \<Rightarrow> (py_exception \<times> bool + string) \<times> metadata \<times> UserSession \<times> UltraAdvancedKioskChatbot" where
  "try_block env clk kiosk session md user_input =
     (if max_input_length (config kiosk) < int (length user_input)
      then (Inr too_long_message, md, session, kiosk)
      else if is_inappropriate_content (config kiosk) user_input
      then (Inr refusal_message, md, session, kiosk)
      else
        let context = format_conversation_context session;
            (cached_response, cache1) =
               cache_get (hashlib_md5 env) (now_get clk) (kiosk_cache kiosk) user_input context;
            kiosk1 = kiosk\<lparr>kiosk_cache := cache1,
                       cache_log := cache_log kiosk @ [Get (now_get clk) user_input context]\<rparr>
        in if cached_response \<noteq> None \<and> cached_response \<noteq> Some []
           then (Inr (the cached_response),
                 md\<lparr>cached := True, response_time := time_hit clk - time_start clk\<rparr>,
                 session, kiosk1\<lparr>cache_hits := cache_hits kiosk1 + 1\<rparr>)
           else
             let ((resp0, used), mgr1) =
                    get_response env (config kiosk1) (ai_manager kiosk1) user_input context;
                 kiosk2 = kiosk1\<lparr>ai_manager := mgr1\<rparr>;
                 resp = post_process env (translator kiosk2) session resp0;
                 kiosk3 = kiosk2\<lparr>cache_log :=
                               cache_log kiosk2 @ [Set (now_set clk) user_input resp context]\<rparr>
             in case cache_set (hashlib_md5 env) (now_set clk) (kiosk_cache kiosk3)
                       user_input resp context of
                  Inl e \<Rightarrow> (Inl (e, False), md, session, kiosk3)
                | Inr cache2 \<Rightarrow>
                    let kiosk4 = kiosk3\<lparr>kiosk_cache := cache2\<rparr>;
                        md1 = md\<lparr>model_used := used,
                                 response_time := time_done clk - time_start clk\<rparr>;
                        session1 = session
                          \<lparr>questions_count := questions_count session + 1,
                           total_response_time := total_response_time session + response_time md1,
                           conversation_history := conversation_history session @
                             [\<lparr>h_timestamp = now_turn clk, question = user_input,
                               h_response = resp, h_metadata = md1\<rparr>]\<rparr>
                    in if enable_analytics (config kiosk4)
                       then (case log_interaction env (analytics kiosk4)
                                    (session_id session1, user_input, resp, response_time md1,
                                     cached md1, used) of
                               Inl e \<Rightarrow> (Inl (e, True), md1, session1, kiosk4)
                             | Inr rows \<Rightarrow> (Inr resp, md1, session1, kiosk4\<lparr>analytics := rows\<rparr>))
                       else (Inr resp, md1, session1, kiosk4))"

text \<open>The metadata dictionary shared with the last history entry gets the same update.\<close>

definition set_last_metadata :: "metadata \<Rightarrow> history_entry list \<Rightarrow> history_entry list" where
  "set_last_metadata md hs =
     (case rev hs of [] \<Rightarrow> [] | h # earlier \<Rightarrow> rev earlier @ [h\<lparr>h_metadata := md\<rparr>])"

text \<open>
  \<open>process_query\<close>: the \<open>try\<close> block, the \<open>except Exception\<close> handler and the \<open>finally\<close>
  clause. The session object is the current session throughout.
\<close>

definition process_query ::
  "environment \<Rightarrow> clock \<Rightarrow> UltraAdvancedKioskChatbot \<Rightarrow> string
     \<Rightarrow> (string \<times> metadata) \<times> UltraAdvancedKioskChatbot" where
  "process_query env clk kiosk user_input =
     (let (session, kiosk1) = ensure_session clk kiosk;
          (outcome, md, session1, kiosk2) =
             try_block env clk kiosk1 session (initial_metadata session) user_input;
          (result, session2) =
             (case outcome of
                Inr resp \<Rightarrow> ((resp, md), session1)
              | Inl (e, shared) \<Rightarrow>
                  let md1 = md\<lparr>error := Some (str_exception e)\<rparr>
                  in ((error_message, md1),
                      session1\<lparr>errors_encountered := errors_encountered session1 + 1,
                               conversation_history :=
                                 (if shared then set_last_metadata md1 (conversation_history session1)
                                  else conversation_history session1)\<rparr>))
      in (result, kiosk2\<lparr>current_session := Some session2,
                       total_requests := total_requests kiosk2 + 1\<rparr>))"

text \<open>A string is trimmed when it neither starts nor ends with a white space character.\<close>

definition is_trimmed :: "string \<Rightarrow> bool" where
  "is_trimmed s \<longleftrightarrow> s = [] \<or> (\<not> py_isspace (hd s) \<and> \<not> py_isspace (last s))"

section \<open>A configuration for examples\<close>

text \<open>
  The defaults of \<open>KioskConfig\<close> with two Ollama fallbacks, collaborators that never fail
  except for the model calls, whose outcome per model key is the argument, and the manager
  that \<open>initialize_models\<close> builds from them.
\<close>

definition demo_config :: KioskConfig where
  "demo_config =
     \<lparr>primary_model_provider = OLLAMA, primary_model_name = ''neural-chat'',
      fallback_models = [(OLLAMA, ''llama2''), (OLLAMA, ''mistral'')],
      max_tokens = 200, temperature = 3 / 10, timeout = 15, context_window_size = 1000,
      cache_ttl_hours = 24, default_language = ''en'', enable_content_filtering = True,
      max_input_length = 500, enable_analytics = True\<rparr>"

definition demo_env :: "(string \<Rightarrow> py_exception + raw_result) \<Rightarrow> environment" where
  "demo_env backend =
     \<lparr>LANGCHAIN_AVAILABLE = True, ollama_error = (\<lambda>name. None),
      chain_invoke = (\<lambda>model_key mdl sent prompt. backend model_key),
      builtin_str = (\<lambda>result. ''<object>''), hashlib_md5 = (\<lambda>s. s),
      google_translate = (\<lambda>source target text. Inr None),
      db_insert_error = (\<lambda>row. None)\<rparr>"

definition demo_llm :: "string \<Rightarrow> OllamaLLM" where
  "demo_llm name = \<lparr>model = name, llm_temperature = 3 / 10, llm_timeout = 15, num_predict = 200\<rparr>"

definition demo_manager :: MultiModelAIManager where
  "demo_manager =
     \<lparr>current_model = demo_llm ''neural-chat'',
      models = [(''ollama_llama2'', demo_llm ''llama2''), (''ollama_mistral'', demo_llm ''mistral'')],
      model_health = [(''ollama_llama2'', \<lparr>healthy = True, last_error = None\<rparr>),
                      (''ollama_mistral'', \<lparr>healthy = True, last_error = None\<rparr>)],
      invoke_log = []\<rparr>"

text \<open>A clock, a session and a chatbot with the defaults of the source.\<close>

definition demo_clock :: clock where
  "demo_clock =
     \<lparr>time_create = 1700000000, now_create = 0, time_start = 100, now_get = 10,
      time_hit = 101, now_set = 20, time_done = 102, now_turn = 30\<rparr>"

definition demo_session :: UserSession where
  "demo_session =
     \<lparr>session_id = ''session_1700000000_0'', start_time = 0, questions_count = 0,
      total_response_time = 0, preferred_language = ''en'', conversation_history = [],
      errors_encountered = 0\<rparr>"

definition demo_kiosk :: UltraAdvancedKioskChatbot where
  "demo_kiosk =
     \<lparr>config = demo_config, kiosk_cache = IntelligentCache_init 24 1000, cache_log = [],
      analytics = [], ai_manager = demo_manager, translator = True,
      active_sessions = [''session_1700000000_0''], current_session = Some demo_session,
      total_requests = 0, cache_hits = 0\<rparr>"

text \<open>Collaborators and chatbots for the examples of translation and of a cache hit.\<close>

definition demo_greeting_env :: environment where
  "demo_greeting_env = demo_env (\<lambda>model_key. Inr (PlainStr ''Hello''))"

definition demo_translating_env :: environment where
  "demo_translating_env =
     demo_greeting_env\<lparr>google_translate := (\<lambda>source target text. Inr (Some ''Hola''))\<rparr>"

definition demo_spanish_kiosk :: UltraAdvancedKioskChatbot where
  "demo_spanish_kiosk =
     demo_kiosk\<lparr>current_session := Some (demo_session\<lparr>preferred_language := ''es''\<rparr>)\<rparr>"

definition demo_cached_kiosk :: UltraAdvancedKioskChatbot where
  "demo_cached_kiosk =
     demo_kiosk\<lparr>kiosk_cache :=
       \<lparr>ttl_hours = 24, max_size = 1000,
        cache = [(''hello'', \<lparr>response = ''Hi there'', timestamp = 0, hits = 0\<rparr>)]\<rparr>\<rparr>"

section \<open>Properties of the cache\<close>

lemma min_timestamp_mem: "min_timestamp b xs \<in> set (b # xs)"
  by (induction xs arbitrary: b) (auto split: if_splits)

lemma min_timestamp_le_best: "timestamp (snd (min_timestamp b xs)) \<le> timestamp (snd b)"
proof (induction xs arbitrary: b)
  case Nil
  show ?case by simp
next
  case (Cons x xs)
  show ?case
    using Cons.IH [of x] Cons.IH [of b] by (simp split: if_splits)
qed

lemma min_timestamp_least:
  "e \<in> set (b # xs) \<Longrightarrow> timestamp (snd (min_timestamp b xs)) \<le> timestamp (snd e)"
proof (induction xs arbitrary: b)
  case Nil
  then show ?case by simp
next
  case (Cons x xs)
  show ?case
  proof (cases "timestamp (snd x) < timestamp (snd b)")
    case True
    then show ?thesis
      using Cons.IH [of x] Cons.prems min_timestamp_le_best [of x xs] by auto
  next
    case False
    then show ?thesis
      using Cons.IH [of b] Cons.prems min_timestamp_le_best [of b xs] by auto
  qed
qed

lemma length_delete_distinct:
  "distinct (map fst al) \<Longrightarrow> k \<in> fst ` set al \<Longrightarrow> Suc (length (AList.delete k al)) = length al"
proof (induction al)
  case Nil
  then show ?case by simp
next
  case (Cons p al)
  show ?case
  proof (cases "fst p = k")
    case True
    then have "k \<notin> fst ` set al" using Cons.prems(1) by auto
    then show ?thesis using True by (cases p) simp
  next
    case False
    then show ?thesis using Cons by (cases p) auto
  qed
qed

lemma length_update_le: "length (AList.update k v al) \<le> Suc (length al)"
  by (induction al) auto

lemma length_update_mem: "k \<in> fst ` set al \<Longrightarrow> length (AList.update k v al) = length al"
  by (induction al) auto

lemma cache_set_evicts:
  assumes "distinct (map fst (cache c))" and "cache c \<noteq> []"
    and "max_size c \<le> int (length (cache c))"
  shows "\<exists>victim \<in> set (cache c).
           (\<forall>e \<in> set (cache c). timestamp (snd victim) \<le> timestamp (snd e)) \<and>
           Suc (length (AList.delete (fst victim) (cache c))) = length (cache c) \<and>
           cache_set md5_hexdigest now c query resp context =
             Inr (c\<lparr>cache := AList.update (generate_key md5_hexdigest query context)
                      \<lparr>response = resp, timestamp = now, hits = 0\<rparr>
                      (AList.delete (fst victim) (cache c))\<rparr>)"
proof -
  from assms(2) obtain x xs where xs: "cache c = x # xs" by (cases "cache c") auto
  let ?v = "min_timestamp x xs"
  have mem: "?v \<in> set (cache c)" using min_timestamp_mem [of x xs] xs by simp
  have least: "\<forall>e \<in> set (cache c). timestamp (snd ?v) \<le> timestamp (snd e)"
    using min_timestamp_least [of _ x xs] xs by simp
  have len: "Suc (length (AList.delete (fst ?v) (cache c))) = length (cache c)"
    using length_delete_distinct [OF assms(1)] mem by force
  have run: "cache_set md5_hexdigest now c query resp context =
             Inr (c\<lparr>cache := AList.update (generate_key md5_hexdigest query context)
                      \<lparr>response = resp, timestamp = now, hits = 0\<rparr>
                      (AList.delete (fst ?v) (cache c))\<rparr>)"
    using assms(3) xs by (simp add: cache_set_def Let_def)
  from mem least len run show ?thesis by blast
qed

lemma cache_set_inv:
  assumes "cache_inv c" and "cache_set md5_hexdigest now c query resp context = Inr c'"
  shows "cache_inv c' \<and> max_size c' = max_size c \<and> ttl_hours c' = ttl_hours c"
proof (cases "max_size c \<le> int (length (cache c))")
  case True
  then have ne: "cache c \<noteq> []" using assms(2) by (auto simp: cache_set_def Let_def)
  from assms(1) have d: "distinct (map fst (cache c))" by (simp add: cache_inv_def)
  from cache_set_evicts [OF d ne True, of md5_hexdigest now query resp "context"] assms(2)
  obtain victim :: "string \<times> cache_entry" where v: "Suc (length (AList.delete (fst victim) (cache c))) = length (cache c)"
    and c': "c' = c\<lparr>cache := AList.update (generate_key md5_hexdigest query context)
                      \<lparr>response = resp, timestamp = now, hits = 0\<rparr>
                      (AList.delete (fst victim) (cache c))\<rparr>"
    by auto
  have "length (cache c') \<le> length (cache c)"
    using v length_update_le [of "generate_key md5_hexdigest query context" _ "AList.delete (fst victim) (cache c)"]
    by (simp add: c')
  moreover have "distinct (map fst (cache c'))"
    by (simp add: c' d distinct_update distinct_delete)
  ultimately show ?thesis using assms(1) by (simp add: cache_inv_def c')
next
  case False
  then have c': "c' = c\<lparr>cache := AList.update (generate_key md5_hexdigest query context)
                      \<lparr>response = resp, timestamp = now, hits = 0\<rparr> (cache c)\<rparr>"
    using assms(2) by (simp add: cache_set_def Let_def)
  have "length (cache c') \<le> Suc (length (cache c))"
    by (simp add: c' length_update_le)
  then show ?thesis using False assms(1) by (simp add: cache_inv_def c' distinct_update)
qed

lemma cache_get_inv:
  assumes "cache_inv c"
  shows "cache_inv (snd (cache_get md5_hexdigest now c query context)) \<and>
         max_size (snd (cache_get md5_hexdigest now c query context)) = max_size c"
proof (cases "map_of (cache c) (generate_key md5_hexdigest query context)")
  case None
  then show ?thesis using assms by (simp add: cache_get_def)
next
  case (Some entry)
  then have "generate_key md5_hexdigest query context \<in> fst ` set (cache c)"
    by (meson domI domIff map_of_eq_None_iff)
  then show ?thesis
    using assms Some length_delete_le [of "generate_key md5_hexdigest query context" "cache c"]
    by (simp add: cache_get_def cache_inv_def Let_def length_update_mem distinct_update distinct_delete)
qed

lemma apply_cache_op_inv:
  "cache_inv c \<Longrightarrow> cache_inv (apply_cache_op md5_hexdigest c op) \<and> max_size (apply_cache_op md5_hexdigest c op) = max_size c"
  by (cases op) (auto simp: cache_get_inv dest: cache_set_inv split: sum.splits)

lemma run_cache_ops_inv:
  "cache_inv c \<Longrightarrow> cache_inv (run_cache_ops md5_hexdigest ops c) \<and> max_size (run_cache_ops md5_hexdigest ops c) = max_size c"
  unfolding run_cache_ops_def
  by (induction ops arbitrary: c) (simp_all add: apply_cache_op_inv)

lemma init_inv: "0 \<le> msize \<Longrightarrow> cache_inv (IntelligentCache_init ttl msize)"
  by (simp add: cache_inv_def IntelligentCache_init_def)

lemma three_inserts:
  assumes "generate_key md5_hexdigest qa ca \<noteq> generate_key md5_hexdigest qb cb"
    and "generate_key md5_hexdigest qa ca \<noteq> generate_key md5_hexdigest qc cc"
    and "generate_key md5_hexdigest qb cb \<noteq> generate_key md5_hexdigest qc cc"
  shows "map fst (cache (run_cache_ops md5_hexdigest [Set 0 qa ra ca, Set 1 qb rb cb, Set 2 qc rc cc]
           (IntelligentCache_init ttl 2))) = [generate_key md5_hexdigest qb cb, generate_key md5_hexdigest qc cc]"
  using assms
  by (simp add: run_cache_ops_def cache_set_def IntelligentCache_init_def Let_def)

lemma cache_set_lookup:
  assumes "cache_set md5_hexdigest t0 c query resp ctx = Inr c'"
  shows "map_of (cache c') (generate_key md5_hexdigest query ctx) =
           Some \<lparr>response = resp, timestamp = t0, hits = 0\<rparr> \<and> ttl_hours c' = ttl_hours c"
  using assms
  by (auto simp: cache_set_def Let_def update_conv' split: if_splits list.splits)

text \<open>
  Claim C3. The cache never holds more entries than \<open>max_size\<close>: from the empty cache of
  \<open>__init__\<close> (with a maximum size that is not negative), after every sequence of \<open>get\<close>
  and \<open>set\<close> calls the number of entries is at most \<open>max_size\<close>. A \<open>set\<close> on a cache
  at capacity evicts exactly one entry, one whose timestamp is the oldest, and then inserts.
  With \<open>max_size = 2\<close>, setting three distinct keys A, B, C at times 0, 1, 2 leaves the
  keys B and C.
\<close>

theorem cache_capacity:
  "(0 \<le> msize \<longrightarrow>
      int (length (cache (run_cache_ops md5_hexdigest ops (IntelligentCache_init ttl msize)))) \<le> msize) \<and>
   (distinct (map fst (cache c)) \<and> cache c \<noteq> [] \<and> max_size c \<le> int (length (cache c)) \<longrightarrow>
      (\<exists>victim \<in> set (cache c).
         (\<forall>e \<in> set (cache c). timestamp (snd victim) \<le> timestamp (snd e)) \<and>
         Suc (length (AList.delete (fst victim) (cache c))) = length (cache c) \<and>
         cache_set md5_hexdigest now c query resp ctx =
           Inr (c\<lparr>cache := AList.update (generate_key md5_hexdigest query ctx)
                    \<lparr>response = resp, timestamp = now, hits = 0\<rparr>
                    (AList.delete (fst victim) (cache c))\<rparr>))) \<and>
   (generate_key md5_hexdigest qa ca \<noteq> generate_key md5_hexdigest qb cb \<and>
    generate_key md5_hexdigest qa ca \<noteq> generate_key md5_hexdigest qc cc \<and>
    generate_key md5_hexdigest qb cb \<noteq> generate_key md5_hexdigest qc cc \<longrightarrow>
      map fst (cache (run_cache_ops md5_hexdigest [Set 0 qa ra ca, Set 1 qb rb cb, Set 2 qc rc cc]
                 (IntelligentCache_init ttl' 2))) =
        [generate_key md5_hexdigest qb cb, generate_key md5_hexdigest qc cc])"
proof (intro conjI impI)
  assume "0 \<le> msize"
  then show "int (length (cache (run_cache_ops md5_hexdigest ops (IntelligentCache_init ttl msize)))) \<le> msize"
    using run_cache_ops_inv [OF init_inv, of msize md5_hexdigest ops ttl]
    by (simp add: cache_inv_def IntelligentCache_init_def)
next
  assume "distinct (map fst (cache c)) \<and> cache c \<noteq> [] \<and> max_size c \<le> int (length (cache c))"
  then show "\<exists>victim \<in> set (cache c).
         (\<forall>e \<in> set (cache c). timestamp (snd victim) \<le> timestamp (snd e)) \<and>
         Suc (length (AList.delete (fst victim) (cache c))) = length (cache c) \<and>
         cache_set md5_hexdigest now c query resp ctx =
           Inr (c\<lparr>cache := AList.update (generate_key md5_hexdigest query ctx)
                    \<lparr>response = resp, timestamp = now, hits = 0\<rparr>
                    (AList.delete (fst victim) (cache c))\<rparr>)"
    using cache_set_evicts [of c md5_hexdigest now query resp ctx] by blast
next
  assume "generate_key md5_hexdigest qa ca \<noteq> generate_key md5_hexdigest qb cb \<and>
    generate_key md5_hexdigest qa ca \<noteq> generate_key md5_hexdigest qc cc \<and>
    generate_key md5_hexdigest qb cb \<noteq> generate_key md5_hexdigest qc cc"
  then show "map fst (cache (run_cache_ops md5_hexdigest [Set 0 qa ra ca, Set 1 qb rb cb, Set 2 qc rc cc]
                 (IntelligentCache_init ttl' 2))) =
        [generate_key md5_hexdigest qb cb, generate_key md5_hexdigest qc cc]"
    using three_inserts by blast
qed

theorem cache_capacity_witness:
  "int (length (cache (run_cache_ops (\<lambda>s. s)
          [Set 0 ''a'' ''ra'' [], Get 1 ''a'' [], Set 2 ''b'' ''rb'' [], Set 3 ''c'' ''rc'' [], Get 4 ''b'' []]
          (IntelligentCache_init 24 2)))) \<le> 2 \<and>
   cache_set (\<lambda>s. s) 7 \<lparr>ttl_hours = 1, max_size = 2,
        cache = [(''a'', \<lparr>response = ''ra'', timestamp = 5, hits = 0\<rparr>),
                 (''b'', \<lparr>response = ''rb'', timestamp = 3, hits = 2\<rparr>)]\<rparr> ''c'' ''rc'' [] =
     Inr \<lparr>ttl_hours = 1, max_size = 2,
          cache = [(''a'', \<lparr>response = ''ra'', timestamp = 5, hits = 0\<rparr>),
                   (''c'', \<lparr>response = ''rc'', timestamp = 7, hits = 0\<rparr>)]\<rparr> \<and>
   map fst (cache (run_cache_ops (\<lambda>s. s)
          [Set 0 ''a'' ''ra'' [], Set 1 ''b'' ''rb'' [], Set 2 ''c'' ''rc'' []]
          (IntelligentCache_init 24 2))) = [''b'', ''c'']"
  using cache_capacity [where msize = 2 and md5_hexdigest = "\<lambda>s. s" and ttl = 24 and ttl' = 24
      and ops = "[Set 0 ''a'' ''ra'' [], Get 1 ''a'' [], Set 2 ''b'' ''rb'' [], Set 3 ''c'' ''rc'' [], Get 4 ''b'' []]"
      and c = "\<lparr>ttl_hours = 1, max_size = 2,
        cache = [(''a'', \<lparr>response = ''ra'', timestamp = 5, hits = 0\<rparr>),
                 (''b'', \<lparr>response = ''rb'', timestamp = 3, hits = 2\<rparr>)]\<rparr>"
      and now = 7 and query = "''c''" and resp = "''rc''" and ctx = "[]"
      and qa = "''a''" and ca = "[]" and qb = "''b''" and cb = "[]" and qc = "''c''" and cc = "[]"
      and ra = "''ra''" and rb = "''rb''" and rc = "''rc''"]
  by (simp add: generate_key_def py_strip_def py_lower_def py_lower_char_def py_isspace_def
        cache_set_def)

text \<open>
  Claim C4. For an entry stored under the key of (query, context): when the time since the
  entry's timestamp is at least the TTL, \<open>get\<close> returns nothing and the entry is deleted;
  when it is strictly less, \<open>get\<close> returns the stored response and the entry's hit count
  is one more. The same holds for an entry that \<open>set\<close> has just stored at time \<open>t0\<close> and
  that is read at time \<open>t1\<close>.
\<close>

theorem cache_get_ttl:
  "(map_of (cache c) (generate_key md5_hexdigest query ctx) = Some entry \<and>
    timedelta_hours (ttl_hours c) \<le> now - timestamp entry \<longrightarrow>
      cache_get md5_hexdigest now c query ctx =
        (None, c\<lparr>cache := AList.delete (generate_key md5_hexdigest query ctx) (cache c)\<rparr>) \<and>
      map_of (cache (snd (cache_get md5_hexdigest now c query ctx))) (generate_key md5_hexdigest query ctx) = None) \<and>
   (map_of (cache c) (generate_key md5_hexdigest query ctx) = Some entry \<and>
    now - timestamp entry < timedelta_hours (ttl_hours c) \<longrightarrow>
      cache_get md5_hexdigest now c query ctx =
        (Some (response entry),
         c\<lparr>cache := AList.update (generate_key md5_hexdigest query ctx)
                       (entry\<lparr>hits := hits entry + 1\<rparr>) (cache c)\<rparr>) \<and>
      map_of (cache (snd (cache_get md5_hexdigest now c query ctx))) (generate_key md5_hexdigest query ctx) =
        Some (entry\<lparr>hits := hits entry + 1\<rparr>)) \<and>
   (cache_set md5_hexdigest t0 c query resp ctx = Inr c' \<longrightarrow>
      (timedelta_hours (ttl_hours c) \<le> t1 - t0 \<longrightarrow>
         fst (cache_get md5_hexdigest t1 c' query ctx) = None \<and>
         map_of (cache (snd (cache_get md5_hexdigest t1 c' query ctx))) (generate_key md5_hexdigest query ctx) = None) \<and>
      (t1 - t0 < timedelta_hours (ttl_hours c) \<longrightarrow>
         fst (cache_get md5_hexdigest t1 c' query ctx) = Some resp))"
proof (intro conjI impI)
  assume a: "map_of (cache c) (generate_key md5_hexdigest query ctx) = Some entry \<and>
    timedelta_hours (ttl_hours c) \<le> now - timestamp entry"
  then show "cache_get md5_hexdigest now c query ctx =
        (None, c\<lparr>cache := AList.delete (generate_key md5_hexdigest query ctx) (cache c)\<rparr>)"
    by (simp add: cache_get_def)
  from a show "map_of (cache (snd (cache_get md5_hexdigest now c query ctx))) (generate_key md5_hexdigest query ctx) = None"
    by (simp add: cache_get_def delete_conv')
next
  assume a: "map_of (cache c) (generate_key md5_hexdigest query ctx) = Some entry \<and>
    now - timestamp entry < timedelta_hours (ttl_hours c)"
  then show "cache_get md5_hexdigest now c query ctx =
        (Some (response entry),
         c\<lparr>cache := AList.update (generate_key md5_hexdigest query ctx)
                       (entry\<lparr>hits := hits entry + 1\<rparr>) (cache c)\<rparr>)"
    by (simp add: cache_get_def)
  from a show "map_of (cache (snd (cache_get md5_hexdigest now c query ctx))) (generate_key md5_hexdigest query ctx) =
        Some (entry\<lparr>hits := hits entry + 1\<rparr>)"
    by (simp add: cache_get_def update_conv')
next
  assume s: "cache_set md5_hexdigest t0 c query resp ctx = Inr c'"
    and t: "timedelta_hours (ttl_hours c) \<le> t1 - t0"
  note l = cache_set_lookup [OF s]
  from l t show "fst (cache_get md5_hexdigest t1 c' query ctx) = None"
    by (simp add: cache_get_def)
  from l t show "map_of (cache (snd (cache_get md5_hexdigest t1 c' query ctx))) (generate_key md5_hexdigest query ctx) = None"
    by (simp add: cache_get_def delete_conv')
next
  assume s: "cache_set md5_hexdigest t0 c query resp ctx = Inr c'"
    and t: "t1 - t0 < timedelta_hours (ttl_hours c)"
  note l = cache_set_lookup [OF s]
  from l t show "fst (cache_get md5_hexdigest t1 c' query ctx) = Some resp"
    by (simp add: cache_get_def)
qed

theorem cache_get_ttl_witness:
  "cache_get (\<lambda>s. s) 3600000003 \<lparr>ttl_hours = 1, max_size = 2,
        cache = [(''a'', \<lparr>response = ''ra'', timestamp = 5, hits = 0\<rparr>),
                 (''b'', \<lparr>response = ''rb'', timestamp = 3, hits = 2\<rparr>)]\<rparr> ''b'' [] =
     (None, \<lparr>ttl_hours = 1, max_size = 2,
              cache = [(''a'', \<lparr>response = ''ra'', timestamp = 5, hits = 0\<rparr>)]\<rparr>) \<and>
   cache_get (\<lambda>s. s) 3600000002 \<lparr>ttl_hours = 1, max_size = 2,
        cache = [(''a'', \<lparr>response = ''ra'', timestamp = 5, hits = 0\<rparr>),
                 (''b'', \<lparr>response = ''rb'', timestamp = 3, hits = 2\<rparr>)]\<rparr> ''b'' [] =
     (Some ''rb'', \<lparr>ttl_hours = 1, max_size = 2,
              cache = [(''a'', \<lparr>response = ''ra'', timestamp = 5, hits = 0\<rparr>),
                       (''b'', \<lparr>response = ''rb'', timestamp = 3, hits = 3\<rparr>)]\<rparr>) \<and>
   fst (cache_get (\<lambda>s. s) 3600000010
          \<lparr>ttl_hours = 1, max_size = 2,
             cache = [(''a'', \<lparr>response = ''ra'', timestamp = 5, hits = 0\<rparr>),
                      (''c'', \<lparr>response = ''rc'', timestamp = 10, hits = 0\<rparr>)]\<rparr> ''c'' []) = None \<and>
   fst (cache_get (\<lambda>s. s) 3600000009
          \<lparr>ttl_hours = 1, max_size = 2,
             cache = [(''a'', \<lparr>response = ''ra'', timestamp = 5, hits = 0\<rparr>),
                      (''c'', \<lparr>response = ''rc'', timestamp = 10, hits = 0\<rparr>)]\<rparr> ''c'' []) = Some ''rc''"
proof -
  let ?c = "\<lparr>ttl_hours = 1, max_size = 2,
        cache = [(''a'', \<lparr>response = ''ra'', timestamp = 5, hits = 0\<rparr>),
                 (''b'', \<lparr>response = ''rb'', timestamp = 3, hits = 2\<rparr>)]\<rparr>"
  let ?c' = "\<lparr>ttl_hours = 1, max_size = 2,
             cache = [(''a'', \<lparr>response = ''ra'', timestamp = 5, hits = 0\<rparr>),
                      (''c'', \<lparr>response = ''rc'', timestamp = 10, hits = 0\<rparr>)]\<rparr>"
  let ?e = "\<lparr>response = ''rb'', timestamp = 3, hits = 2\<rparr>"
  have k: "generate_key (\<lambda>s. s) ''b'' [] = ''b''" "generate_key (\<lambda>s. s) ''c'' [] = ''c''"
    by (simp_all add: generate_key_def py_strip_def py_lower_def py_lower_char_def py_isspace_def)
  have s: "cache_set (\<lambda>s. s) 10 ?c ''c'' ''rc'' [] = Inr ?c'"
    by (simp add: cache_set_def k Let_def)
  have expired: "cache_get (\<lambda>s. s) 3600000003 ?c ''b'' [] =
       (None, ?c\<lparr>cache := AList.delete ''b'' (cache ?c)\<rparr>)"
    using cache_get_ttl [where md5_hexdigest = "\<lambda>s. s" and now = 3600000003 and query = "''b''"
        and ctx = "[]" and entry = ?e and c = ?c]
    by (simp add: k timedelta_hours_def)
  have fresh: "cache_get (\<lambda>s. s) 3600000002 ?c ''b'' [] =
       (Some ''rb'', ?c\<lparr>cache := AList.update ''b'' (?e\<lparr>hits := 3\<rparr>) (cache ?c)\<rparr>)"
    using cache_get_ttl [where md5_hexdigest = "\<lambda>s. s" and now = 3600000002 and query = "''b''"
        and ctx = "[]" and entry = ?e and c = ?c]
    by (simp add: k timedelta_hours_def)
  have after_set: "fst (cache_get (\<lambda>s. s) 3600000010 ?c' ''c'' []) = None"
      "fst (cache_get (\<lambda>s. s) 3600000009 ?c' ''c'' []) = Some ''rc''"
    using cache_get_ttl [where md5_hexdigest = "\<lambda>s. s" and query = "''c''" and ctx = "[]"
        and c = ?c and c' = ?c' and ?t0.0 = 10 and ?t1.0 = 3600000010 and resp = "''rc''"]
      cache_get_ttl [where md5_hexdigest = "\<lambda>s. s" and query = "''c''" and ctx = "[]"
        and c = ?c and c' = ?c' and ?t0.0 = 10 and ?t1.0 = 3600000009 and resp = "''rc''"]
      s
    by (simp_all add: timedelta_hours_def)
  from expired fresh after_set show ?thesis by simp
qed

section \<open>Properties of the model manager\<close>

lemma model_key_not_primary: "model_key_of provider model_name \<noteq> ''primary''"
proof
  assume "model_key_of provider model_name = ''primary''"
  then have "set (model_key_of provider model_name) = set ''primary''" by simp
  moreover have "CHR ''_'' \<in> set (model_key_of provider model_name)"
    by (simp add: model_key_of_def)
  ultimately show False by simp
qed

lemma init_fallbacks_keys:
  assumes "map fst hs = map fst ms" and "distinct (map fst ms)"
    and "init_fallbacks env cfg fbs (ms, hs) = (ms', hs')"
  shows "map fst hs' = map fst ms' \<and> distinct (map fst ms') \<and>
         set (map fst ms') = set (map fst ms) \<union>
           {model_key_of p n | p n. (p, n) \<in> set fbs \<and> (\<exists>m. create_model env cfg p n = Inr m)}"
  using assms
proof (induction fbs arbitrary: ms hs)
  case Nil
  then show ?case by simp
next
  case (Cons fb fbs)
  obtain p n where fb: "fb = (p, n)" by (cases fb)
  show ?case
  proof (cases "create_model env cfg p n")
    case (Inl e)
    with Cons.prems fb have "init_fallbacks env cfg fbs (ms, hs) = (ms', hs')"
      by (simp add: Let_def)
    from Cons.IH [OF Cons.prems(1,2) this] Inl fb show ?thesis by auto
  next
    case (Inr m)
    let ?k = "model_key_of p n"
    let ?ms = "AList.update ?k m ms"
    let ?hs = "AList.update ?k \<lparr>healthy = True, last_error = None\<rparr> hs"
    from Cons.prems fb Inr have run: "init_fallbacks env cfg fbs (?ms, ?hs) = (ms', hs')"
      by (simp add: Let_def)
    have k: "map fst ?hs = map fst ?ms" using Cons.prems(1) by (simp add: update_keys)
    have d: "distinct (map fst ?ms)" using Cons.prems(2) by (simp add: distinct_update)
    have s: "set (map fst ?ms) = insert ?k (set (map fst ms))"
      using dom_update [of ?k m ms] by simp
    from Cons.IH [OF k d run] s Inr fb show ?thesis by auto
  qed
qed

lemma initialize_models_inv:
  assumes "initialize_models env cfg = Inr mgr"
  shows "manager_inv mgr \<and> invoke_log mgr = [] \<and>
         set (map fst (model_health mgr)) =
           {model_key_of p n | p n. (p, n) \<in> set (fallback_models cfg) \<and>
              (\<exists>m. create_model env cfg p n = Inr m)}"
proof -
  obtain ms hs where r: "init_fallbacks env cfg (fallback_models cfg) ([], []) = (ms, hs)"
    by (cases "init_fallbacks env cfg (fallback_models cfg) ([], [])")
  from assms r have m: "models mgr = ms" "model_health mgr = hs" "invoke_log mgr = []"
    by (auto simp: initialize_models_def split: sum.splits)
  from init_fallbacks_keys [OF _ _ r]
  have k: "map fst hs = map fst ms" "distinct (map fst ms)"
    "set (map fst ms) = {model_key_of p n | p n. (p, n) \<in> set (fallback_models cfg) \<and>
              (\<exists>m. create_model env cfg p n = Inr m)}"
    by simp_all
  have "''primary'' \<notin> set (map fst ms)"
  proof
    assume "''primary'' \<in> set (map fst ms)"
    with k(3) obtain p n where "''primary'' = model_key_of p n" by auto
    then show False using model_key_not_primary [of p n] by simp
  qed
  with k m show ?thesis by (simp add: manager_inv_def)
qed

lemma try_candidate_fail:
  "chain_invoke env k m sent prompt = Inl e \<Longrightarrow> try_candidate env k m sent prompt mgr = Inl e"
  by (simp add: try_candidate_def)

lemma attempt_models_all_fail:
  assumes "\<forall>(k, m) \<in> set cands.
             \<exists>e. chain_invoke env k m (py_slice_to ctx (context_window_size cfg)) prompt = Inl e"
    and "cands \<noteq> []" and "attempt + length cands = Suc n"
  shows "fst (attempt_models env cfg prompt ctx n attempt cands mgr) = (technical_difficulties, ''error'')"
  using assms
proof (induction cands arbitrary: attempt mgr)
  case Nil
  then show ?case by simp
next
  case (Cons c cands)
  obtain k m where c: "c = (k, m)" by (cases c)
  from Cons.prems(1) c obtain e
    where e: "chain_invoke env k m (py_slice_to ctx (context_window_size cfg)) prompt = Inl e"
    by auto
  show ?case
  proof (cases "attempt = n")
    case True
    then show ?thesis using c e by (simp add: try_candidate_fail Let_def)
  next
    case False
    with Cons.prems(3) have ne: "cands \<noteq> []" and len: "Suc attempt + length cands = Suc n"
      by auto
    from Cons.prems(1) have all: "\<forall>(k, m) \<in> set cands.
             \<exists>e. chain_invoke env k m (py_slice_to ctx (context_window_size cfg)) prompt = Inl e"
      by simp
    show ?thesis
      using False c e Cons.IH [OF all ne len]
      by (simp add: try_candidate_fail Let_def)
  qed
qed

text \<open>
  Claim C2. When the call of the primary model raises and the call of every fallback model
  raises, whatever the number of fallbacks (none included), \<open>get_response\<close> returns the
  fixed message about technical difficulties with the model key \<open>error\<close>; it returns a
  value, no exception leaves it.
\<close>

theorem get_response_exhausted:
  assumes "\<exists>e. chain_invoke env ''primary'' (current_model mgr)
                  (py_slice_to ctx (context_window_size cfg)) prompt = Inl e"
    and "\<forall>(k, m) \<in> set (models mgr).
           \<exists>e. chain_invoke env k m (py_slice_to ctx (context_window_size cfg)) prompt = Inl e"
  shows "fst (get_response env cfg mgr prompt ctx) =
           (''I'' @ [CHR 0x27] @ ''m experiencing technical difficulties. Please try again in a moment.'',
            ''error'')"
  using attempt_models_all_fail [of "(''primary'', current_model mgr) # models mgr" env ctx cfg prompt
      0 "length (models mgr)" mgr] assms
  by (simp add: get_response_def technical_difficulties_def)

theorem get_response_exhausted_witness:
  "fst (get_response (demo_env (\<lambda>k. Inl (ExternalError ''timed out''))) demo_config
          demo_manager ''where is the library?'' []) =
     (''I'' @ [CHR 0x27] @ ''m experiencing technical difficulties. Please try again in a moment.'',
      ''error'') \<and>
   fst (get_response (demo_env (\<lambda>k. Inl (ExternalError ''timed out''))) demo_config
          (demo_manager\<lparr>models := [], model_health := []\<rparr>) ''where is the library?'' []) =
     (''I'' @ [CHR 0x27] @ ''m experiencing technical difficulties. Please try again in a moment.'',
      ''error'')"
  using get_response_exhausted [of "demo_env (\<lambda>k. Inl (ExternalError ''timed out''))"
      demo_manager "[]" demo_config "''where is the library?''"]
    get_response_exhausted [of "demo_env (\<lambda>k. Inl (ExternalError ''timed out''))"
      "demo_manager\<lparr>models := [], model_health := []\<rparr>" "[]" demo_config "''where is the library?''"]
  by (simp add: demo_env_def demo_manager_def)

lemma demo_manager_initialized:
  "initialize_models (demo_env backend) demo_config = Inr demo_manager"
  by (simp add: initialize_models_def create_model_def demo_env_def demo_config_def
      demo_manager_def demo_llm_def model_key_of_def Let_def)

lemma map_of_mem_keys: "k \<in> set (map fst al) \<Longrightarrow> \<exists>v. map_of al k = Some v"
  by (induction al) auto

lemma keys_of_map_of: "map_of al k = Some v \<Longrightarrow> k \<in> set (map fst al)"
  by (induction al) (auto split: if_splits)

lemma update_keys_mem: "k \<in> fst ` set al \<Longrightarrow> map fst (AList.update k v al) = map fst al"
  by (simp add: update_keys)

lemma update_keys_map_of: "map_of al k = Some b \<Longrightarrow> map fst (AList.update k v al) = map fst al"
  by (rule update_keys_mem) (auto dest: map_of_SomeD intro: rev_image_eqI)

lemma try_candidate_ok:
  assumes "try_candidate env k m sent prompt mgr = Inr (resp, mgr')"
  shows "map fst (model_health mgr') = map fst (model_health mgr) \<and> models mgr' = models mgr \<and>
         current_model mgr' = current_model mgr \<and> invoke_log mgr' = invoke_log mgr"
  using assms
  by (auto simp: try_candidate_def Let_def update_keys_map_of
      split: sum.splits if_splits option.splits)

lemma attempt_models_keys:
  assumes "set (map fst cands) \<subseteq> insert ''primary'' (set (map fst (model_health mgr)))"
  shows "map fst (model_health (snd (attempt_models env cfg prompt ctx n attempt cands mgr))) =
           map fst (model_health mgr) \<and>
         models (snd (attempt_models env cfg prompt ctx n attempt cands mgr)) = models mgr \<and>
         current_model (snd (attempt_models env cfg prompt ctx n attempt cands mgr)) = current_model mgr"
  using assms
proof (induction cands arbitrary: attempt mgr)
  case Nil
  then show ?case by simp
next
  case (Cons c cands)
  obtain k m where c: "c = (k, m)" by (cases c)
  let ?sent = "py_slice_to ctx (context_window_size cfg)"
  let ?mgr1 = "mgr\<lparr>invoke_log := invoke_log mgr @ [(k, ?sent, prompt)]\<rparr>"
  show ?case
  proof (cases "try_candidate env k m ?sent prompt ?mgr1")
    case (Inr r)
    obtain resp mgr2 where r: "r = (resp, mgr2)" by (cases r)
    from try_candidate_ok [of env k m ?sent prompt ?mgr1 resp mgr2] Inr r c
    show ?thesis by (simp add: Let_def)
  next
    case (Inl e)
    let ?mgr2 = "if k \<noteq> ''primary''
                 then ?mgr1\<lparr>model_health := AList.update k
                        \<lparr>healthy = False, last_error = Some (str_exception e)\<rparr> (model_health ?mgr1)\<rparr>
                 else ?mgr1"
    have keys: "map fst (model_health ?mgr2) = map fst (model_health mgr)"
      using Cons.prems c by (auto intro: update_keys_mem)
    have rest: "models ?mgr2 = models mgr" "current_model ?mgr2 = current_model mgr" by simp_all
    have sub: "set (map fst cands) \<subseteq> insert ''primary'' (set (map fst (model_health ?mgr2)))"
      using Cons.prems keys by auto
    show ?thesis
    proof (cases "attempt = n")
      case True
      then show ?thesis using Inl c keys rest by (simp add: Let_def)
    next
      case False
      have "attempt_models env cfg prompt ctx n attempt (c # cands) mgr =
            attempt_models env cfg prompt ctx n (Suc attempt) cands ?mgr2"
        using False Inl c by (simp add: Let_def)
      then show ?thesis using Cons.IH [OF sub, of "Suc attempt"] keys rest by simp
    qed
  qed
qed

lemma get_response_inv:
  assumes "manager_inv mgr"
  shows "manager_inv (snd (get_response env cfg mgr prompt ctx)) \<and>
         map fst (model_health (snd (get_response env cfg mgr prompt ctx))) = map fst (model_health mgr)"
proof -
  have "set (map fst ((''primary'', current_model mgr) # models mgr)) \<subseteq>
          insert ''primary'' (set (map fst (model_health mgr)))"
    using assms by (auto simp: manager_inv_def)
  from attempt_models_keys [OF this, of env cfg prompt ctx "length (models mgr)" 0] assms
  show ?thesis by (simp add: get_response_def manager_inv_def)
qed

lemma run_get_responses_inv:
  "manager_inv mgr \<Longrightarrow>
     manager_inv (run_get_responses cfg calls mgr) \<and>
     map fst (model_health (run_get_responses cfg calls mgr)) = map fst (model_health mgr)"
proof (induction calls arbitrary: mgr)
  case Nil
  then show ?case by simp
next
  case (Cons call calls)
  obtain env prompt ctx where call: "call = (env, prompt, ctx)" by (cases call)
  from get_response_inv [OF Cons.prems, of env cfg prompt ctx] Cons.IH [of "snd (get_response env cfg mgr prompt ctx)"]
  show ?case by (simp add: call)
qed

lemma try_candidate_frame:
  assumes "try_candidate env k m sent prompt mgr = Inr (resp, mgr')" and "k' \<noteq> k"
  shows "map_of (model_health mgr') k' = map_of (model_health mgr) k'"
  using assms
  by (auto simp: try_candidate_def Let_def update_conv'
      split: sum.splits if_splits option.splits)

lemma attempt_models_frame:
  "\<exists>new. invoke_log (snd (attempt_models env cfg prompt ctx n attempt cands mgr)) =
           invoke_log mgr @ new \<and>
         fst ` set new \<subseteq> fst ` set cands \<and>
         (\<forall>k. k \<notin> fst ` set new \<longrightarrow>
            map_of (model_health (snd (attempt_models env cfg prompt ctx n attempt cands mgr))) k =
            map_of (model_health mgr) k)"
proof (induction cands arbitrary: attempt mgr)
  case Nil
  show ?case by simp
next
  case (Cons c cands)
  obtain k m where c: "c = (k, m)" by (cases c)
  let ?sent = "py_slice_to ctx (context_window_size cfg)"
  let ?mgr1 = "mgr\<lparr>invoke_log := invoke_log mgr @ [(k, ?sent, prompt)]\<rparr>"
  let ?res = "attempt_models env cfg prompt ctx n attempt (c # cands) mgr"
  show ?case
  proof (cases "try_candidate env k m ?sent prompt ?mgr1")
    case (Inr r)
    obtain resp mgr2 where r: "r = (resp, mgr2)" by (cases r)
    have res: "snd ?res = mgr2" using Inr r c by (simp add: Let_def)
    have log: "invoke_log mgr2 = invoke_log mgr @ [(k, ?sent, prompt)]"
      using try_candidate_ok [of env k m ?sent prompt ?mgr1 resp mgr2] Inr r by simp
    have fr: "\<forall>k'. k' \<notin> fst ` set [(k, ?sent, prompt)] \<longrightarrow>
                map_of (model_health mgr2) k' = map_of (model_health mgr) k'"
      using try_candidate_frame [of env k m ?sent prompt ?mgr1 resp mgr2] Inr r by simp
    show ?thesis
    proof (rule exI [of _ "[(k, ?sent, prompt)]"], intro conjI)
      show "invoke_log (snd ?res) = invoke_log mgr @ [(k, ?sent, prompt)]"
        using log res by simp
      show "fst ` set [(k, ?sent, prompt)] \<subseteq> fst ` set (c # cands)" using c by simp
      show "\<forall>k'. k' \<notin> fst ` set [(k, ?sent, prompt)] \<longrightarrow>
              map_of (model_health (snd ?res)) k' = map_of (model_health mgr) k'"
        using fr res by simp
    qed
  next
    case (Inl e)
    let ?mgr2 = "if k \<noteq> ''primary''
                 then ?mgr1\<lparr>model_health := AList.update k
                        \<lparr>healthy = False, last_error = Some (str_exception e)\<rparr> (model_health ?mgr1)\<rparr>
                 else ?mgr1"
    have log2: "invoke_log ?mgr2 = invoke_log mgr @ [(k, ?sent, prompt)]" by simp
    have fr2: "\<forall>k'. k' \<noteq> k \<longrightarrow> map_of (model_health ?mgr2) k' = map_of (model_health mgr) k'"
      by (simp add: update_conv')
    show ?thesis
    proof (cases "attempt = n")
      case True
      have res: "snd ?res = ?mgr2" using True Inl c by (simp add: Let_def)
      show ?thesis
      proof (rule exI [of _ "[(k, ?sent, prompt)]"], intro conjI)
        show "invoke_log (snd ?res) = invoke_log mgr @ [(k, ?sent, prompt)]"
          using log2 res by simp
        show "fst ` set [(k, ?sent, prompt)] \<subseteq> fst ` set (c # cands)" using c by simp
        show "\<forall>k'. k' \<notin> fst ` set [(k, ?sent, prompt)] \<longrightarrow>
                map_of (model_health (snd ?res)) k' = map_of (model_health mgr) k'"
          using fr2 res by simp
      qed
    next
      case False
      have res: "?res = attempt_models env cfg prompt ctx n (Suc attempt) cands ?mgr2"
        using False Inl c by (simp add: Let_def)
      from Cons.IH [of "Suc attempt" ?mgr2] obtain new
        where n1: "invoke_log (snd (attempt_models env cfg prompt ctx n (Suc attempt) cands ?mgr2)) =
                   invoke_log ?mgr2 @ new"
          and n2: "fst ` set new \<subseteq> fst ` set cands"
          and n3: "\<forall>k. k \<notin> fst ` set new \<longrightarrow>
            map_of (model_health (snd (attempt_models env cfg prompt ctx n (Suc attempt) cands ?mgr2))) k =
            map_of (model_health ?mgr2) k"
        by blast
      let ?new = "(k, ?sent, prompt) # new"
      have a: "invoke_log (snd ?res) = invoke_log mgr @ ?new"
        using n1 log2 res by simp
      have b: "fst ` set ?new \<subseteq> fst ` set (c # cands)" using n2 c by auto
      have d: "\<forall>k'. k' \<notin> fst ` set ?new \<longrightarrow>
            map_of (model_health (snd ?res)) k' = map_of (model_health mgr) k'"
        using n3 fr2 res by auto
      from a b d show ?thesis by blast
    qed
  qed
qed

text \<open>
  Claim C10. After \<open>initialize_models\<close> the keys of \<open>model_health\<close> are the keys of the
  fallback models whose creation succeeded, each once, and the key \<open>primary\<close> is not among
  them. No call of \<open>get_response\<close> (and no sequence of calls) changes the list of keys, and a
  call changes only the records of the candidates that it called.
\<close>

theorem model_health_keys:
  assumes "initialize_models env cfg = Inr mgr"
  shows "set (map fst (model_health mgr)) =
           {model_key_of p n | p n. (p, n) \<in> set (fallback_models cfg) \<and>
              (\<exists>m. create_model env cfg p n = Inr m)} \<and>
         distinct (map fst (model_health mgr)) \<and>
         ''primary'' \<notin> set (map fst (model_health mgr)) \<and>
         map fst (model_health (run_get_responses cfg calls mgr)) = map fst (model_health mgr) \<and>
         map fst (model_health (snd (get_response env' cfg mgr prompt ctx))) = map fst (model_health mgr) \<and>
         (\<exists>new. invoke_log (snd (get_response env' cfg mgr prompt ctx)) = invoke_log mgr @ new \<and>
            (\<forall>k. k \<notin> fst ` set new \<longrightarrow>
               map_of (model_health (snd (get_response env' cfg mgr prompt ctx))) k =
               map_of (model_health mgr) k))"
proof -
  from initialize_models_inv [OF assms] have inv: "manager_inv mgr"
    and keys: "set (map fst (model_health mgr)) =
           {model_key_of p n | p n. (p, n) \<in> set (fallback_models cfg) \<and>
              (\<exists>m. create_model env cfg p n = Inr m)}"
    by blast+
  from inv have d: "distinct (map fst (model_health mgr))"
    and np: "''primary'' \<notin> set (map fst (model_health mgr))"
    by (simp_all add: manager_inv_def)
  from run_get_responses_inv [OF inv, of cfg calls]
  have r: "map fst (model_health (run_get_responses cfg calls mgr)) = map fst (model_health mgr)"
    by blast
  from get_response_inv [OF inv, of env' cfg prompt ctx]
  have g: "map fst (model_health (snd (get_response env' cfg mgr prompt ctx))) =
           map fst (model_health mgr)"
    by blast
  from attempt_models_frame [of env' cfg prompt ctx "length (models mgr)" 0
      "(''primary'', current_model mgr) # models mgr" mgr]
  have f: "\<exists>new. invoke_log (snd (get_response env' cfg mgr prompt ctx)) = invoke_log mgr @ new \<and>
            (\<forall>k. k \<notin> fst ` set new \<longrightarrow>
               map_of (model_health (snd (get_response env' cfg mgr prompt ctx))) k =
               map_of (model_health mgr) k)"
    unfolding get_response_def by blast
  from keys d np r g f show ?thesis by blast
qed

theorem model_health_keys_witness:
  "map fst (model_health demo_manager) = [''ollama_llama2'', ''ollama_mistral''] \<and>
   ''primary'' \<notin> set (map fst (model_health demo_manager)) \<and>
   map fst (model_health (run_get_responses demo_config
      [(demo_env (\<lambda>k. Inl (ExternalError ''timed out'')), ''hello'', []),
       (demo_env (\<lambda>k. Inr (PlainStr ''hi'')), ''hello again'', [])] demo_manager)) =
     [''ollama_llama2'', ''ollama_mistral'']"
proof -
  let ?calls = "[(demo_env (\<lambda>k. Inl (ExternalError ''timed out'')), ''hello'', []),
                 (demo_env (\<lambda>k. Inr (PlainStr ''hi'')), ''hello again'', [])]"
  note t = model_health_keys [OF demo_manager_initialized, where calls = ?calls]
  from t have a: "''primary'' \<notin> set (map fst (model_health demo_manager))" by blast
  from t have b: "map fst (model_health (run_get_responses demo_config ?calls demo_manager)) =
                  map fst (model_health demo_manager)"
    by blast
  have c: "map fst (model_health demo_manager) = [''ollama_llama2'', ''ollama_mistral'']"
    by (simp add: demo_manager_def)
  from a b c show ?thesis by simp
qed

lemma try_candidate_success:
  assumes "chain_invoke env k m sent prompt = Inr raw"
    and "k = ''primary'' \<or> k \<in> fst ` set (model_health mgr)"
  shows "\<exists>mgr'. try_candidate env k m sent prompt mgr =
                   Inr (normalize_response (builtin_str env) raw, mgr') \<and>
               invoke_log mgr' = invoke_log mgr \<and> models mgr' = models mgr \<and>
               current_model mgr' = current_model mgr \<and>
               (k \<noteq> ''primary'' \<longrightarrow>
                  (\<exists>h. map_of (model_health mgr) k = Some h \<and>
                       map_of (model_health mgr') k = Some (h\<lparr>healthy := True\<rparr>))) \<and>
               (\<forall>k'. k' \<noteq> k \<longrightarrow> map_of (model_health mgr') k' = map_of (model_health mgr) k')"
proof (cases "k = ''primary''")
  case True
  then show ?thesis using assms(1) by (simp add: try_candidate_def)
next
  case False
  with assms(2) have "k \<in> fst ` set (model_health mgr)" by simp
  then obtain h where h: "map_of (model_health mgr) k = Some h"
    by (metis domD dom_map_of_conv_image_fst)
  show ?thesis
    using False assms(1) h by (simp add: try_candidate_def Let_def update_conv')
qed

lemma attempt_models_first_success:
  assumes fails: "\<forall>(k', m') \<in> set failed.
             \<exists>e. chain_invoke env k' m' (py_slice_to ctx (context_window_size cfg)) prompt = Inl e"
    and ok: "chain_invoke env k m (py_slice_to ctx (context_window_size cfg)) prompt = Inr raw"
    and dist: "distinct (map fst failed)" and notin: "k \<notin> fst ` set failed"
    and has: "k = ''primary'' \<or> k \<in> fst ` set (model_health mgr)"
    and idx: "attempt + length failed \<le> n"
  shows "\<exists>mgr'. attempt_models env cfg prompt ctx n attempt (failed @ (k, m) # rest) mgr =
                   ((normalize_response (builtin_str env) raw, k), mgr') \<and>
           invoke_log mgr' = invoke_log mgr @
             map (\<lambda>c. (fst c, py_slice_to ctx (context_window_size cfg), prompt)) (failed @ [(k, m)]) \<and>
           models mgr' = models mgr \<and> current_model mgr' = current_model mgr \<and>
           (\<forall>(k', m') \<in> set failed. k' \<noteq> ''primary'' \<longrightarrow>
              (\<exists>e. chain_invoke env k' m' (py_slice_to ctx (context_window_size cfg)) prompt = Inl e \<and>
                   map_of (model_health mgr') k' =
                     Some \<lparr>healthy = False, last_error = Some (str_exception e)\<rparr>)) \<and>
           (k \<noteq> ''primary'' \<longrightarrow>
              (\<exists>h. map_of (model_health mgr) k = Some h \<and>
                   map_of (model_health mgr') k = Some (h\<lparr>healthy := True\<rparr>))) \<and>
           (\<forall>k'. k' \<notin> fst ` set failed \<and> k' \<noteq> k \<longrightarrow>
              map_of (model_health mgr') k' = map_of (model_health mgr) k')"
  using fails dist notin has idx
proof (induction failed arbitrary: attempt mgr)
  case Nil
  let ?sent = "py_slice_to ctx (context_window_size cfg)"
  let ?mgr1 = "mgr\<lparr>invoke_log := invoke_log mgr @ [(k, ?sent, prompt)]\<rparr>"
  from Nil.prems(4) have "k = ''primary'' \<or> k \<in> fst ` set (model_health ?mgr1)" by simp
  from try_candidate_success [OF ok this] obtain mgr'
    where t: "try_candidate env k m ?sent prompt ?mgr1 =
                Inr (normalize_response (builtin_str env) raw, mgr')"
      and p: "invoke_log mgr' = invoke_log ?mgr1" "models mgr' = models ?mgr1"
        "current_model mgr' = current_model ?mgr1"
        "k \<noteq> ''primary'' \<longrightarrow>
                  (\<exists>h. map_of (model_health ?mgr1) k = Some h \<and>
                       map_of (model_health mgr') k = Some (h\<lparr>healthy := True\<rparr>))"
        "\<forall>k'. k' \<noteq> k \<longrightarrow> map_of (model_health mgr') k' = map_of (model_health ?mgr1) k'"
    by blast
  show ?case
  proof (rule exI [of _ mgr'], intro conjI)
    show "attempt_models env cfg prompt ctx n attempt ([] @ (k, m) # rest) mgr =
            ((normalize_response (builtin_str env) raw, k), mgr')"
      using t by (simp add: Let_def)
  qed (use p in simp_all)
next
  case (Cons c failed)
  obtain k0 m0 where c: "c = (k0, m0)" by (cases c)
  let ?sent = "py_slice_to ctx (context_window_size cfg)"
  let ?mgr1 = "mgr\<lparr>invoke_log := invoke_log mgr @ [(k0, ?sent, prompt)]\<rparr>"
  from Cons.prems(1) c obtain e where e: "chain_invoke env k0 m0 ?sent prompt = Inl e" by auto
  let ?mgr2 = "if k0 \<noteq> ''primary''
               then ?mgr1\<lparr>model_health := AList.update k0
                      \<lparr>healthy = False, last_error = Some (str_exception e)\<rparr> (model_health ?mgr1)\<rparr>
               else ?mgr1"
  from Cons.prems(5) have ne: "attempt \<noteq> n" and idx': "Suc attempt + length failed \<le> n" by simp_all
  have step: "attempt_models env cfg prompt ctx n attempt ((c # failed) @ (k, m) # rest) mgr =
              attempt_models env cfg prompt ctx n (Suc attempt) (failed @ (k, m) # rest) ?mgr2"
    using ne c e by (simp add: try_candidate_fail Let_def)
  from Cons.prems(3) c have kk0: "k \<noteq> k0" and notin': "k \<notin> fst ` set failed" by auto
  from Cons.prems(2) c have k0notin: "k0 \<notin> fst ` set failed" and dist': "distinct (map fst failed)"
    by auto
  from Cons.prems(1) have fails': "\<forall>(k', m') \<in> set failed.
             \<exists>e. chain_invoke env k' m' ?sent prompt = Inl e" by simp
  have has': "k = ''primary'' \<or> k \<in> fst ` set (model_health ?mgr2)"
    using Cons.prems(4) by (auto simp: dom_update)
  from Cons.IH [OF fails' dist' notin' has' idx'] obtain mgr'
    where r: "attempt_models env cfg prompt ctx n (Suc attempt) (failed @ (k, m) # rest) ?mgr2 =
                ((normalize_response (builtin_str env) raw, k), mgr')"
      and lg: "invoke_log mgr' = invoke_log ?mgr2 @
                 map (\<lambda>c. (fst c, ?sent, prompt)) (failed @ [(k, m)])"
      and md: "models mgr' = models ?mgr2" "current_model mgr' = current_model ?mgr2"
      and fl: "\<forall>(k', m') \<in> set failed. k' \<noteq> ''primary'' \<longrightarrow>
              (\<exists>e. chain_invoke env k' m' ?sent prompt = Inl e \<and>
                   map_of (model_health mgr') k' =
                     Some \<lparr>healthy = False, last_error = Some (str_exception e)\<rparr>)"
      and su: "k \<noteq> ''primary'' \<longrightarrow>
              (\<exists>h. map_of (model_health ?mgr2) k = Some h \<and>
                   map_of (model_health mgr') k = Some (h\<lparr>healthy := True\<rparr>))"
      and fr: "\<forall>k'. k' \<notin> fst ` set failed \<and> k' \<noteq> k \<longrightarrow>
              map_of (model_health mgr') k' = map_of (model_health ?mgr2) k'"
    by blast
  have k0rec: "k0 \<noteq> ''primary'' \<longrightarrow>
                 map_of (model_health mgr') k0 =
                   Some \<lparr>healthy = False, last_error = Some (str_exception e)\<rparr>"
    using fr k0notin kk0 by (simp add: update_conv')
  have keep: "\<forall>k'. k' \<noteq> k0 \<longrightarrow> map_of (model_health ?mgr2) k' = map_of (model_health mgr) k'"
    by (simp add: update_conv')
  show ?case
  proof (rule exI [of _ mgr'], intro conjI)
    show "attempt_models env cfg prompt ctx n attempt ((c # failed) @ (k, m) # rest) mgr =
            ((normalize_response (builtin_str env) raw, k), mgr')"
      using step r by simp
    show "invoke_log mgr' = invoke_log mgr @
            map (\<lambda>c. (fst c, ?sent, prompt)) ((c # failed) @ [(k, m)])"
      using lg c by simp
    show "models mgr' = models mgr" using md by simp
    show "current_model mgr' = current_model mgr" using md by simp
    show "\<forall>(k', m') \<in> set (c # failed). k' \<noteq> ''primary'' \<longrightarrow>
              (\<exists>e. chain_invoke env k' m' ?sent prompt = Inl e \<and>
                   map_of (model_health mgr') k' =
                     Some \<lparr>healthy = False, last_error = Some (str_exception e)\<rparr>)"
      using fl k0rec e c by auto
    show "k \<noteq> ''primary'' \<longrightarrow>
              (\<exists>h. map_of (model_health mgr) k = Some h \<and>
                   map_of (model_health mgr') k = Some (h\<lparr>healthy := True\<rparr>))"
      using su keep kk0 by auto
    show "\<forall>k'. k' \<notin> fst ` set (c # failed) \<and> k' \<noteq> k \<longrightarrow>
              map_of (model_health mgr') k' = map_of (model_health mgr) k'"
      using fr keep c by auto
  qed
qed

lemma py_strip_trimmed: "is_trimmed (py_strip s)"
proof (cases "py_strip s = []")
  case True
  then show ?thesis by (simp add: is_trimmed_def)
next
  case False
  let ?a = "dropWhile py_isspace s"
  let ?d = "dropWhile py_isspace (rev ?a)"
  have b: "py_strip s = rev ?d" by (simp add: py_strip_def)
  with False have dne: "?d \<noteq> []" by simp
  then have "\<not> py_isspace (hd ?d)" by (rule hd_dropWhile)
  moreover have "last (rev ?d) = hd ?d" using dne by (simp add: last_rev)
  ultimately have l: "\<not> py_isspace (last (py_strip s))" using b by simp
  have "rev (takeWhile py_isspace (rev ?a) @ ?d) = rev (rev ?a)"
    by (simp only: takeWhile_dropWhile_id)
  then have a: "rev ?d @ rev (takeWhile py_isspace (rev ?a)) = ?a"
    by (simp only: rev_append rev_rev_ident)
  have ane: "?a \<noteq> []"
  proof
    assume e: "?a = []"
    have "?d = []" by (simp only: e rev.simps dropWhile.simps)
    with dne show False by contradiction
  qed
  then have "\<not> py_isspace (hd ?a)" by (rule hd_dropWhile)
  moreover have "hd (rev ?d @ rev (takeWhile py_isspace (rev ?a))) = hd (rev ?d)"
    using dne by simp
  then have "hd ?a = hd (rev ?d)" using a by simp
  ultimately have h: "\<not> py_isspace (hd (py_strip s))" using b by simp
  from h l show ?thesis by (simp add: is_trimmed_def)
qed

lemma normalize_response_trimmed: "is_trimmed (normalize_response to_str result)"
  by (simp add: normalize_response_def py_strip_trimmed split: raw_result.splits option.splits list.splits)

text \<open>
  Claim C1. The attempt list is the primary model followed by the fallbacks in the order of
  the dictionary \<open>models\<close>. When the call of the primary raises, the calls of an initial
  segment \<open>failed\<close> of the fallbacks raise and the call of the next fallback \<open>k\<close> returns,
  \<open>get_response\<close> returns the normalised response of \<open>k\<close> with the key \<open>k\<close>; the calls made
  are exactly those of the primary, of \<open>failed\<close> and of \<open>k\<close>, each once and none of a later
  candidate; every fallback of \<open>failed\<close> is recorded unhealthy with the text of its exception,
  \<open>k\<close> is marked healthy, and the records of the later fallbacks are unchanged.
\<close>

theorem get_response_failover:
  assumes inv: "manager_inv mgr"
    and split: "models mgr = failed @ (k, m) # rest"
    and primary: "chain_invoke env ''primary'' (current_model mgr)
                    (py_slice_to ctx (context_window_size cfg)) prompt = Inl e0"
    and fails: "\<forall>(k', m') \<in> set failed.
                  \<exists>e. chain_invoke env k' m' (py_slice_to ctx (context_window_size cfg)) prompt = Inl e"
    and ok: "chain_invoke env k m (py_slice_to ctx (context_window_size cfg)) prompt = Inr raw"
  shows "\<exists>mgr'. get_response env cfg mgr prompt ctx =
                   ((normalize_response (builtin_str env) raw, k), mgr') \<and>
           invoke_log mgr' = invoke_log mgr @
             map (\<lambda>key. (key, py_slice_to ctx (context_window_size cfg), prompt))
               (''primary'' # map fst failed @ [k]) \<and>
           distinct (''primary'' # map fst failed @ [k]) \<and>
           set (map fst rest) \<inter> set (''primary'' # map fst failed @ [k]) = {} \<and>
           (\<forall>(k', m') \<in> set failed.
              \<exists>e. chain_invoke env k' m' (py_slice_to ctx (context_window_size cfg)) prompt = Inl e \<and>
                  map_of (model_health mgr') k' =
                    Some \<lparr>healthy = False, last_error = Some (str_exception e)\<rparr>) \<and>
           (\<exists>h. map_of (model_health mgr) k = Some h \<and>
                map_of (model_health mgr') k = Some (h\<lparr>healthy := True\<rparr>)) \<and>
           (\<forall>(k', m') \<in> set rest. map_of (model_health mgr') k' = map_of (model_health mgr) k')"
proof -
  let ?sent = "py_slice_to ctx (context_window_size cfg)"
  let ?failed = "(''primary'', current_model mgr) # failed"
  from inv split have d: "distinct (map fst failed @ k # map fst rest)"
    and np: "''primary'' \<notin> set (map fst failed @ k # map fst rest)"
    and hk: "map fst (model_health mgr) = map fst failed @ k # map fst rest"
    by (simp_all add: manager_inv_def)
  have dist: "distinct (map fst ?failed)" using d np by auto
  have notin: "k \<notin> fst ` set ?failed" using d np by auto
  have knp: "k \<noteq> ''primary''" using np by auto
  have "k \<in> set (map fst (model_health mgr))" using hk by simp
  then have has: "k = ''primary'' \<or> k \<in> fst ` set (model_health mgr)" by simp
  have idx: "0 + length ?failed \<le> length (models mgr)" using split by simp
  have fails': "\<forall>(k', m') \<in> set ?failed. \<exists>e. chain_invoke env k' m' ?sent prompt = Inl e"
    using primary fails by simp
  from attempt_models_first_success [OF fails' ok dist notin has idx, of rest] obtain mgr'
    where r: "attempt_models env cfg prompt ctx (length (models mgr)) 0 (?failed @ (k, m) # rest) mgr =
                ((normalize_response (builtin_str env) raw, k), mgr')"
      and lg: "invoke_log mgr' = invoke_log mgr @
                 map (\<lambda>c. (fst c, ?sent, prompt)) (?failed @ [(k, m)])"
      and fl: "\<forall>(k', m') \<in> set ?failed. k' \<noteq> ''primary'' \<longrightarrow>
              (\<exists>e. chain_invoke env k' m' ?sent prompt = Inl e \<and>
                   map_of (model_health mgr') k' =
                     Some \<lparr>healthy = False, last_error = Some (str_exception e)\<rparr>)"
      and su: "k \<noteq> ''primary'' \<longrightarrow>
              (\<exists>h. map_of (model_health mgr) k = Some h \<and>
                   map_of (model_health mgr') k = Some (h\<lparr>healthy := True\<rparr>))"
      and fr: "\<forall>k'. k' \<notin> fst ` set ?failed \<and> k' \<noteq> k \<longrightarrow>
              map_of (model_health mgr') k' = map_of (model_health mgr) k'"
    by blast
  show ?thesis
  proof (rule exI [of _ mgr'], intro conjI)
    show "get_response env cfg mgr prompt ctx =
            ((normalize_response (builtin_str env) raw, k), mgr')"
      using r split by (simp add: get_response_def)
    show "invoke_log mgr' = invoke_log mgr @
             map (\<lambda>key. (key, ?sent, prompt)) (''primary'' # map fst failed @ [k])"
      using lg by (simp add: comp_def)
    show "distinct (''primary'' # map fst failed @ [k])" using d np by auto
    show "set (map fst rest) \<inter> set (''primary'' # map fst failed @ [k]) = {}"
      using d np by auto
    show "\<forall>(k', m') \<in> set failed.
              \<exists>e. chain_invoke env k' m' ?sent prompt = Inl e \<and>
                  map_of (model_health mgr') k' =
                    Some \<lparr>healthy = False, last_error = Some (str_exception e)\<rparr>"
    proof (clarify)
      fix k' m' assume mem: "(k', m') \<in> set failed"
      then have "k' \<in> fst ` set failed" by force
      moreover from np have "''primary'' \<notin> fst ` set failed" by simp
      ultimately have "k' \<noteq> ''primary''" by blast
      with fl mem show "\<exists>e. chain_invoke env k' m' ?sent prompt = Inl e \<and>
                  map_of (model_health mgr') k' =
                    Some \<lparr>healthy = False, last_error = Some (str_exception e)\<rparr>"
        by auto
    qed
    show "\<exists>h. map_of (model_health mgr) k = Some h \<and>
                map_of (model_health mgr') k = Some (h\<lparr>healthy := True\<rparr>)"
      using su knp by simp
    show "\<forall>(k', m') \<in> set rest. map_of (model_health mgr') k' = map_of (model_health mgr) k'"
    proof (clarify)
      fix k' m' assume mem: "(k', m') \<in> set rest"
      then have kr: "k' \<in> fst ` set rest" by force
      from d have "k \<notin> fst ` set rest" "fst ` set failed \<inter> fst ` set rest = {}" by auto
      moreover from np have "''primary'' \<notin> fst ` set rest" by simp
      ultimately have "k' \<noteq> k" "k' \<notin> fst ` set failed" "k' \<noteq> ''primary''"
        using kr by blast+
      then have "k' \<notin> fst ` set ?failed \<and> k' \<noteq> k" by simp
      with fr show "map_of (model_health mgr') k' = map_of (model_health mgr) k'" by blast
    qed
  qed
qed

theorem get_response_failover_witness:
  "fst (get_response
          (demo_env (\<lambda>k. if k = ''ollama_mistral'' then Inr (PlainStr '' Room 12 is upstairs. '')
                        else Inl (ExternalError ''connection refused'')))
          demo_config demo_manager ''where is room 12?'' []) =
     (''Room 12 is upstairs.'', ''ollama_mistral'') \<and>
   map fst (invoke_log (snd (get_response
          (demo_env (\<lambda>k. if k = ''ollama_mistral'' then Inr (PlainStr '' Room 12 is upstairs. '')
                        else Inl (ExternalError ''connection refused'')))
          demo_config demo_manager ''where is room 12?'' []))) =
     [''primary'', ''ollama_llama2'', ''ollama_mistral''] \<and>
   map_of (model_health (snd (get_response
          (demo_env (\<lambda>k. if k = ''ollama_mistral'' then Inr (PlainStr '' Room 12 is upstairs. '')
                        else Inl (ExternalError ''connection refused'')))
          demo_config demo_manager ''where is room 12?'' []))) ''ollama_llama2'' =
     Some \<lparr>healthy = False, last_error = Some ''connection refused''\<rparr> \<and>
   map_of (model_health (snd (get_response
          (demo_env (\<lambda>k. if k = ''ollama_mistral'' then Inr (PlainStr '' Room 12 is upstairs. '')
                        else Inl (ExternalError ''connection refused'')))
          demo_config demo_manager ''where is room 12?'' []))) ''ollama_mistral'' =
     Some \<lparr>healthy = True, last_error = None\<rparr>"
proof -
  let ?env = "demo_env (\<lambda>k. if k = ''ollama_mistral'' then Inr (PlainStr '' Room 12 is upstairs. '')
                        else Inl (ExternalError ''connection refused''))"
  let ?sent = "py_slice_to [] (context_window_size demo_config)"
  let ?q = "''where is room 12?''"
  have inv: "manager_inv demo_manager" by (simp add: manager_inv_def demo_manager_def)
  have split: "models demo_manager =
      [(''ollama_llama2'', demo_llm ''llama2'')] @ (''ollama_mistral'', demo_llm ''mistral'') # []"
    by (simp add: demo_manager_def)
  have primary: "chain_invoke ?env ''primary'' (current_model demo_manager) ?sent ?q =
      Inl (ExternalError ''connection refused'')"
    by (simp add: demo_env_def)
  have fails: "\<forall>(k', m') \<in> set [(''ollama_llama2'', demo_llm ''llama2'')].
      \<exists>e. chain_invoke ?env k' m' ?sent ?q = Inl e"
    by (simp add: demo_env_def)
  have ok: "chain_invoke ?env ''ollama_mistral'' (demo_llm ''mistral'') ?sent ?q =
      Inr (PlainStr '' Room 12 is upstairs. '')"
    by (simp add: demo_env_def)
  have norm: "normalize_response (builtin_str ?env) (PlainStr '' Room 12 is upstairs. '') =
      ''Room 12 is upstairs.''"
    by (simp add: normalize_response_def py_strip_def py_isspace_def)
  have err: "\<And>e. chain_invoke ?env ''ollama_llama2'' (demo_llm ''llama2'') ?sent ?q = Inl e \<Longrightarrow>
      str_exception e = ''connection refused''"
    by (auto simp: demo_env_def)
  have old: "map_of (model_health demo_manager) ''ollama_mistral'' =
      Some \<lparr>healthy = True, last_error = None\<rparr>"
    by (simp add: demo_manager_def)
  have log: "invoke_log demo_manager = []" by (simp add: demo_manager_def)
  from get_response_failover [OF inv split primary fails ok] obtain mgr'
    where r: "get_response ?env demo_config demo_manager ?q [] =
                ((normalize_response (builtin_str ?env) (PlainStr '' Room 12 is upstairs. ''),
                  ''ollama_mistral''), mgr')"
      and lg: "invoke_log mgr' = invoke_log demo_manager @
                 map (\<lambda>key. (key, ?sent, ?q))
                   (''primary'' # map fst [(''ollama_llama2'', demo_llm ''llama2'')] @ [''ollama_mistral''])"
      and fl: "\<forall>(k', m') \<in> set [(''ollama_llama2'', demo_llm ''llama2'')].
              \<exists>e. chain_invoke ?env k' m' ?sent ?q = Inl e \<and>
                  map_of (model_health mgr') k' =
                    Some \<lparr>healthy = False, last_error = Some (str_exception e)\<rparr>"
      and su: "\<exists>h. map_of (model_health demo_manager) ''ollama_mistral'' = Some h \<and>
                map_of (model_health mgr') ''ollama_mistral'' = Some (h\<lparr>healthy := True\<rparr>)"
    by blast
  from fl err have a: "map_of (model_health mgr') ''ollama_llama2'' =
      Some \<lparr>healthy = False, last_error = Some ''connection refused''\<rparr>"
    by auto
  from su old have b: "map_of (model_health mgr') ''ollama_mistral'' =
      Some \<lparr>healthy = True, last_error = None\<rparr>"
    by auto
  from lg log have c: "map fst (invoke_log mgr') = [''primary'', ''ollama_llama2'', ''ollama_mistral'']"
    by simp
  from r norm a b c show ?thesis by simp
qed

text \<open>
  Claim C9. Whichever candidate is the first whose call returns, the response that
  \<open>get_response\<close> returns is the normalisation of the raw result: a single string that
  neither starts nor ends with white space, equal to the stripped text when the result is a
  plain string, an object whose \<open>content\<close> is a string, a dictionary whose \<open>text\<close> is a
  string, or a list of alternatives whose first element is a string (the source takes the
  first alternative of a list that is not empty).
\<close>

theorem get_response_normalized:
  assumes inv: "manager_inv mgr"
    and split: "(''primary'', current_model mgr) # models mgr = failed @ (k, m) # rest"
    and fails: "\<forall>(k', m') \<in> set failed.
                  \<exists>e. chain_invoke env k' m' (py_slice_to ctx (context_window_size cfg)) prompt = Inl e"
    and ok: "chain_invoke env k m (py_slice_to ctx (context_window_size cfg)) prompt = Inr raw"
  shows "fst (get_response env cfg mgr prompt ctx) = (normalize_response (builtin_str env) raw, k) \<and>
         is_trimmed (fst (fst (get_response env cfg mgr prompt ctx))) \<and>
         (\<forall>s. raw = PlainStr s \<longrightarrow> fst (fst (get_response env cfg mgr prompt ctx)) = py_strip s) \<and>
         (\<forall>t. raw = WithContent (Str t) \<longrightarrow>
              fst (fst (get_response env cfg mgr prompt ctx)) = py_strip t) \<and>
         (\<forall>d t. raw = DictResult d \<and> map_of d ''text'' = Some (Str t) \<longrightarrow>
              fst (fst (get_response env cfg mgr prompt ctx)) = py_strip t) \<and>
         (\<forall>t alts. raw = ListResult (Str t # alts) \<longrightarrow>
              fst (fst (get_response env cfg mgr prompt ctx)) = py_strip t)"
proof -
  from split have "map fst ((''primary'', current_model mgr) # models mgr) =
                   map fst (failed @ (k, m) # rest)"
    by (rule arg_cong)
  then have keys: "''primary'' # map fst (models mgr) = map fst failed @ k # map fst rest" by simp
  from inv have "distinct (''primary'' # map fst (models mgr))" by (simp add: manager_inv_def)
  with keys have d: "distinct (map fst failed @ k # map fst rest)" by simp
  then have dist: "distinct (map fst failed)" and notin: "k \<notin> fst ` set failed" by auto
  have "k \<in> set (''primary'' # map fst (models mgr))" using keys by simp
  moreover from inv have "map fst (model_health mgr) = map fst (models mgr)"
    by (simp add: manager_inv_def)
  ultimately have "k = ''primary'' \<or> k \<in> set (map fst (model_health mgr))" by auto
  then have has: "k = ''primary'' \<or> k \<in> fst ` set (model_health mgr)" by simp
  from split have "length ((''primary'', current_model mgr) # models mgr) =
                   length (failed @ (k, m) # rest)"
    by (rule arg_cong)
  then have idx: "0 + length failed \<le> length (models mgr)" by simp
  from attempt_models_first_success [OF fails ok dist notin has idx, of rest] split
  have r: "fst (get_response env cfg mgr prompt ctx) = (normalize_response (builtin_str env) raw, k)"
    by (auto simp: get_response_def)
  then have f: "fst (fst (get_response env cfg mgr prompt ctx)) =
                normalize_response (builtin_str env) raw"
    by simp
  show ?thesis
  proof (intro conjI allI impI)
    show "fst (get_response env cfg mgr prompt ctx) = (normalize_response (builtin_str env) raw, k)"
      by (rule r)
    show "is_trimmed (fst (fst (get_response env cfg mgr prompt ctx)))"
      by (simp only: f normalize_response_trimmed)
  qed (simp_all add: f normalize_response_def)
qed

theorem get_response_normalized_witness:
  "fst (get_response (demo_env (\<lambda>k. Inr (PlainStr ''  Open until 5 pm. ''))) demo_config
          demo_manager ''opening hours?'' []) = (''Open until 5 pm.'', ''primary'') \<and>
   fst (get_response (demo_env (\<lambda>k. Inr (WithContent (Str ''  Open until 5 pm. '')))) demo_config
          demo_manager ''opening hours?'' []) = (''Open until 5 pm.'', ''primary'') \<and>
   fst (get_response (demo_env (\<lambda>k. Inr (DictResult [(''text'', Str ''  Open until 5 pm. '')])))
          demo_config demo_manager ''opening hours?'' []) = (''Open until 5 pm.'', ''primary'') \<and>
   fst (get_response (demo_env (\<lambda>k. Inr (ListResult [Str ''  Open until 5 pm. '', Str ''Closed.''])))
          demo_config demo_manager ''opening hours?'' []) = (''Open until 5 pm.'', ''primary'')"
proof -
  have inv: "manager_inv demo_manager" by (simp add: manager_inv_def demo_manager_def)
  have split: "(''primary'', current_model demo_manager) # models demo_manager =
                 [] @ (''primary'', current_model demo_manager) # models demo_manager"
    by simp
  have s: "py_strip ''  Open until 5 pm. '' = ''Open until 5 pm.''"
    by (simp add: py_strip_def py_isspace_def)
  have a: "fst (get_response (demo_env (\<lambda>k. Inr (PlainStr ''  Open until 5 pm. ''))) demo_config
          demo_manager ''opening hours?'' []) = (''Open until 5 pm.'', ''primary'')"
    using get_response_normalized [OF inv split, of "demo_env (\<lambda>k. Inr (PlainStr ''  Open until 5 pm. ''))"
        "[]" demo_config "''opening hours?''" "PlainStr ''  Open until 5 pm. ''"] s
    by (simp add: demo_env_def normalize_response_def)
  have b: "fst (get_response (demo_env (\<lambda>k. Inr (WithContent (Str ''  Open until 5 pm. '')))) demo_config
          demo_manager ''opening hours?'' []) = (''Open until 5 pm.'', ''primary'')"
    using get_response_normalized [OF inv split, of "demo_env (\<lambda>k. Inr (WithContent (Str ''  Open until 5 pm. '')))"
        "[]" demo_config "''opening hours?''" "WithContent (Str ''  Open until 5 pm. '')"] s
    by (simp add: demo_env_def normalize_response_def)
  have c: "fst (get_response (demo_env (\<lambda>k. Inr (DictResult [(''text'', Str ''  Open until 5 pm. '')])))
          demo_config demo_manager ''opening hours?'' []) = (''Open until 5 pm.'', ''primary'')"
    using get_response_normalized [OF inv split,
        of "demo_env (\<lambda>k. Inr (DictResult [(''text'', Str ''  Open until 5 pm. '')]))"
        "[]" demo_config "''opening hours?''" "DictResult [(''text'', Str ''  Open until 5 pm. '')]"] s
    by (simp add: demo_env_def normalize_response_def)
  have d: "fst (get_response (demo_env (\<lambda>k. Inr (ListResult [Str ''  Open until 5 pm. '', Str ''Closed.''])))
          demo_config demo_manager ''opening hours?'' []) = (''Open until 5 pm.'', ''primary'')"
    using get_response_normalized [OF inv split,
        of "demo_env (\<lambda>k. Inr (ListResult [Str ''  Open until 5 pm. '', Str ''Closed.'']))"
        "[]" demo_config "''opening hours?''" "ListResult [Str ''  Open until 5 pm. '', Str ''Closed.'']"] s
    by (simp add: demo_env_def normalize_response_def)
  from a b c d show ?thesis by simp
qed

section \<open>Properties of the query orchestrator\<close>

lemma ensure_session_same:
  assumes "ensure_session clk kiosk = (session, kiosk1)"
  shows "config kiosk1 = config kiosk" "kiosk_cache kiosk1 = kiosk_cache kiosk"
    "cache_log kiosk1 = cache_log kiosk" "analytics kiosk1 = analytics kiosk"
    "ai_manager kiosk1 = ai_manager kiosk" "translator kiosk1 = translator kiosk"
    "total_requests kiosk1 = total_requests kiosk" "cache_hits kiosk1 = cache_hits kiosk"
    "current_session kiosk1 = Some session"
  using assms
  by (auto simp: ensure_session_def create_session_def Let_def split: option.splits)

lemma try_block_errors_encountered:
  assumes "try_block env clk kiosk session md user_input = (outcome, md', session', kiosk')"
  shows "errors_encountered session' = errors_encountered session"
  using assms
  by (auto simp: try_block_def Let_def split: if_splits prod.splits sum.splits)

lemma try_block_too_long:
  assumes "max_input_length (config kiosk) < int (length user_input)"
  shows "try_block env clk kiosk session md user_input = (Inr too_long_message, md, session, kiosk)"
  using assms by (simp add: try_block_def)

lemmas demo_defs = demo_kiosk_def demo_manager_def demo_config_def demo_env_def demo_clock_def
  demo_session_def demo_llm_def

lemmas eval_defs = try_block_def ensure_session_def initial_metadata_def
  is_inappropriate_content_def inappropriate_patterns_def word_here_def is_word_char_def
  py_lower_def py_lower_char_def py_strip_def py_isspace_def py_slice_to_def
  cache_get_def cache_set_def generate_key_def IntelligentCache_init_def
  format_conversation_context_def get_response_def try_candidate_def normalize_response_def
  post_process_def translate_text_def log_interaction_def Let_def

text \<open>
  Claim C7. For every input longer than \<open>max_input_length\<close>, \<open>process_query\<close> returns the
  fixed message that asks for a shorter question, with the metadata untouched; it calls
  neither \<open>cache.get\<close> nor \<open>cache.set\<close> (the call log and the cache are unchanged) and no
  model (the manager, with its log of model calls, is unchanged).
\<close>

theorem process_query_too_long:
  assumes "max_input_length (config kiosk) < int (length user_input)"
  shows "fst (process_query env clk kiosk user_input) =
           (''Please keep your question shorter for better assistance.'',
            initial_metadata (fst (ensure_session clk kiosk))) \<and>
         cache_log (snd (process_query env clk kiosk user_input)) = cache_log kiosk \<and>
         kiosk_cache (snd (process_query env clk kiosk user_input)) = kiosk_cache kiosk \<and>
         ai_manager (snd (process_query env clk kiosk user_input)) = ai_manager kiosk \<and>
         analytics (snd (process_query env clk kiosk user_input)) = analytics kiosk"
proof -
  obtain session kiosk1 where es: "ensure_session clk kiosk = (session, kiosk1)"
    by (cases "ensure_session clk kiosk")
  note same = ensure_session_same [OF es]
  have "max_input_length (config kiosk1) < int (length user_input)"
    using assms same(1) by simp
  from try_block_too_long [OF this]
  have t: "try_block env clk kiosk1 session (initial_metadata session) user_input =
             (Inr too_long_message, initial_metadata session, session, kiosk1)" .
  show ?thesis
    using es t same by (simp add: process_query_def too_long_message_def)
qed

theorem process_query_too_long_witness:
  "fst (fst (process_query (demo_env (\<lambda>k. Inr (PlainStr ''hi''))) demo_clock
          (demo_kiosk\<lparr>config := demo_config\<lparr>max_input_length := 5\<rparr>\<rparr>) ''where is the library?'')) =
     ''Please keep your question shorter for better assistance.'' \<and>
   cache_log (snd (process_query (demo_env (\<lambda>k. Inr (PlainStr ''hi''))) demo_clock
          (demo_kiosk\<lparr>config := demo_config\<lparr>max_input_length := 5\<rparr>\<rparr>) ''where is the library?'')) = [] \<and>
   invoke_log (ai_manager (snd (process_query (demo_env (\<lambda>k. Inr (PlainStr ''hi''))) demo_clock
          (demo_kiosk\<lparr>config := demo_config\<lparr>max_input_length := 5\<rparr>\<rparr>) ''where is the library?''))) = []"
  using process_query_too_long [of "demo_kiosk\<lparr>config := demo_config\<lparr>max_input_length := 5\<rparr>\<rparr>"
      "''where is the library?''" "demo_env (\<lambda>k. Inr (PlainStr ''hi''))" demo_clock]
  by (simp add: demo_kiosk_def demo_manager_def)

text \<open>
  Claim C8. When the \<open>try\<close> block of \<open>process_query\<close> raises an exception, whichever step
  raised it, \<open>process_query\<close> returns the fixed message about an error, with the text of the
  exception in the metadata, and the session's \<open>errors_encountered\<close> is one more; the call
  returns a value, the exception does not reach the caller.
\<close>

theorem process_query_catches:
  assumes "fst (try_block env clk (snd (ensure_session clk kiosk)) (fst (ensure_session clk kiosk))
                  (initial_metadata (fst (ensure_session clk kiosk))) user_input) = Inl (e, shared)"
  shows "fst (fst (process_query env clk kiosk user_input)) =
           ''I encountered an error processing your request. Please try again.'' \<and>
         error (snd (fst (process_query env clk kiosk user_input))) = Some (str_exception e) \<and>
         (\<exists>s. current_session (snd (process_query env clk kiosk user_input)) = Some s \<and>
              errors_encountered s = errors_encountered (fst (ensure_session clk kiosk)) + 1)"
proof -
  obtain session kiosk1 where es: "ensure_session clk kiosk = (session, kiosk1)"
    by (cases "ensure_session clk kiosk")
  obtain outcome md session1 kiosk2
    where t: "try_block env clk kiosk1 session (initial_metadata session) user_input =
                (outcome, md, session1, kiosk2)"
    by (cases "try_block env clk kiosk1 session (initial_metadata session) user_input") auto
  from assms es t have o: "outcome = Inl (e, shared)" by simp
  from try_block_errors_encountered [OF t]
  have ee: "errors_encountered session1 = errors_encountered session" .
  show ?thesis
    using es t o ee by (simp add: process_query_def error_message_def Let_def)
qed

theorem process_query_catches_witness:
  "fst (fst (process_query
          ((demo_env (\<lambda>k. Inr (PlainStr ''Hi there'')))
             \<lparr>db_insert_error := \<lambda>row. Some (ExternalError ''database is locked'')\<rparr>)
          demo_clock demo_kiosk ''hello'')) =
     ''I encountered an error processing your request. Please try again.'' \<and>
   error (snd (fst (process_query
          ((demo_env (\<lambda>k. Inr (PlainStr ''Hi there'')))
             \<lparr>db_insert_error := \<lambda>row. Some (ExternalError ''database is locked'')\<rparr>)
          demo_clock demo_kiosk ''hello''))) = Some ''database is locked'' \<and>
   (\<exists>s. current_session (snd (process_query
          ((demo_env (\<lambda>k. Inr (PlainStr ''Hi there'')))
             \<lparr>db_insert_error := \<lambda>row. Some (ExternalError ''database is locked'')\<rparr>)
          demo_clock demo_kiosk ''hello'')) = Some s \<and> errors_encountered s = 1)"
proof -
  let ?env = "(demo_env (\<lambda>k. Inr (PlainStr ''Hi there'')))
                \<lparr>db_insert_error := \<lambda>row. Some (ExternalError ''database is locked'')\<rparr>"
  have raised: "fst (try_block ?env demo_clock (snd (ensure_session demo_clock demo_kiosk))
          (fst (ensure_session demo_clock demo_kiosk))
          (initial_metadata (fst (ensure_session demo_clock demo_kiosk))) ''hello'') =
     Inl (ExternalError ''database is locked'', True)"
    by (simp add: eval_defs demo_defs)
  have s: "errors_encountered (fst (ensure_session demo_clock demo_kiosk)) = 0"
    by (simp add: ensure_session_def demo_kiosk_def demo_session_def)
  from process_query_catches [OF raised] s show ?thesis by simp
qed

lemma cache_get_max_size:
  "max_size (snd (cache_get h now c query ctx)) = max_size c"
  by (simp add: cache_get_def Let_def split: option.splits)

lemma cache_set_total:
  assumes "0 < max_size c"
  shows "\<exists>c'. cache_set h now c query resp ctx = Inr c'"
proof (cases "cache c")
  case Nil
  with assms show ?thesis by (simp add: cache_set_def Let_def)
next
  case (Cons x xs)
  then show ?thesis by (simp add: cache_set_def Let_def)
qed


lemma try_block_miss:
  assumes len: "int (length user_input) \<le> max_input_length (config kiosk)"
    and ok: "\<not> is_inappropriate_content (config kiosk) user_input"
    and g: "cache_get (hashlib_md5 env) (now_get clk) (kiosk_cache kiosk) user_input
              (format_conversation_context session) = (cr, cache1)"
    and miss: "cr = None \<or> cr = Some []"
    and gr: "get_response env (config kiosk) (ai_manager kiosk) user_input
              (format_conversation_context session) = ((resp0, used), mgr1)"
    and st: "cache_set (hashlib_md5 env) (now_set clk) cache1 user_input
              (post_process env (translator kiosk) session resp0)
              (format_conversation_context session) = Inr cache2"
  shows "try_block env clk kiosk session md user_input =
           (let resp = post_process env (translator kiosk) session resp0;
                md1 = md\<lparr>model_used := used, response_time := time_done clk - time_start clk\<rparr>;
                session1 = session
                  \<lparr>questions_count := questions_count session + 1,
                   total_response_time := total_response_time session + (time_done clk - time_start clk),
                   conversation_history := conversation_history session @
                     [\<lparr>h_timestamp = now_turn clk, question = user_input,
                       h_response = resp, h_metadata = md1\<rparr>]\<rparr>;
                kiosk4 = kiosk\<lparr>kiosk_cache := cache2,
                   cache_log := cache_log kiosk @
                     [Get (now_get clk) user_input (format_conversation_context session),
                      Set (now_set clk) user_input resp (format_conversation_context session)],
                   ai_manager := mgr1\<rparr>;
                row = (session_id session, user_input, resp, time_done clk - time_start clk,
                       cached md, used)
            in if enable_analytics (config kiosk)
               then (case db_insert_error env row of
                       Some e \<Rightarrow> (Inl (e, True), md1, session1, kiosk4)
                     | None \<Rightarrow> (Inr resp, md1, session1, kiosk4\<lparr>analytics := analytics kiosk @ [row]\<rparr>))
               else (Inr resp, md1, session1, kiosk4))"
  using len ok g miss gr st
  by (auto simp: try_block_def Let_def log_interaction_def split: option.splits)

lemmas demo_defs2 = demo_greeting_env_def demo_translating_env_def demo_spanish_kiosk_def
  demo_cached_kiosk_def

lemma process_query_kiosk_cache:
  assumes "ensure_session clk kiosk = (session, kiosk1)"
  shows "kiosk_cache (snd (process_query env clk kiosk user_input)) =
         kiosk_cache (snd (snd (snd (try_block env clk kiosk1 session (initial_metadata session) user_input))))"
  using assms by (simp add: process_query_def split: prod.splits sum.splits)

lemma try_block_miss_cache:
  assumes len: "int (length user_input) \<le> max_input_length (config kiosk)"
    and ok: "\<not> is_inappropriate_content (config kiosk) user_input"
    and g: "cache_get (hashlib_md5 env) (now_get clk) (kiosk_cache kiosk) user_input
              (format_conversation_context session) = (cr, cache1)"
    and miss: "cr = None \<or> cr = Some []"
    and gr: "get_response env (config kiosk) (ai_manager kiosk) user_input
              (format_conversation_context session) = ((resp0, used), mgr1)"
    and st: "cache_set (hashlib_md5 env) (now_set clk) cache1 user_input
              (post_process env (translator kiosk) session resp0)
              (format_conversation_context session) = Inr cache2"
  shows "kiosk_cache (snd (snd (snd (try_block env clk kiosk session md user_input)))) = cache2"
  by (simp add: try_block_miss [OF len ok g miss gr st] Let_def split: option.splits)

text \<open>
  What \<open>cache.set\<close> receives on a cache miss: the variable \<open>response\<close> after the
  post-processing step, so the translated text whenever the session's language is not \<open>en\<close>
  and the translation yields a text that is not empty, and the response of the dispatcher
  otherwise.
\<close>

lemma process_query_stores_post_processed:
  assumes es: "ensure_session clk kiosk = (session, kiosk1)"
    and len: "int (length user_input) \<le> max_input_length (config kiosk)"
    and ok: "\<not> is_inappropriate_content (config kiosk) user_input"
    and g: "cache_get (hashlib_md5 env) (now_get clk) (kiosk_cache kiosk) user_input
              (format_conversation_context session) = (cr, cache1)"
    and miss: "cr = None \<or> cr = Some []"
    and gr: "get_response env (config kiosk) (ai_manager kiosk) user_input
              (format_conversation_context session) = ((resp0, used), mgr1)"
    and room: "0 < max_size (kiosk_cache kiosk)"
  shows "map_of (cache (kiosk_cache (snd (process_query env clk kiosk user_input))))
           (generate_key (hashlib_md5 env) user_input (format_conversation_context session)) =
           Some \<lparr>response = post_process env (translator kiosk) session resp0,
                 timestamp = now_set clk, hits = 0\<rparr> \<and>
         (preferred_language session \<noteq> ''en'' \<and>
          translate_text env (translator kiosk) resp0 (preferred_language session) ''en'' =
            Some translated \<and> translated \<noteq> [] \<longrightarrow>
            post_process env (translator kiosk) session resp0 = translated) \<and>
         (preferred_language session = ''en'' \<or>
          translate_text env (translator kiosk) resp0 (preferred_language session) ''en'' = None \<or>
          translate_text env (translator kiosk) resp0 (preferred_language session) ''en'' = Some [] \<longrightarrow>
            post_process env (translator kiosk) session resp0 = resp0)"
proof -
  note same = ensure_session_same [OF es]
  have "max_size cache1 = max_size (kiosk_cache kiosk)"
    using cache_get_max_size [of "hashlib_md5 env" "now_get clk" "kiosk_cache kiosk" user_input
        "format_conversation_context session"] g
    by simp
  with room have "0 < max_size cache1" by simp
  from cache_set_total [OF this] obtain cache2
    where st: "cache_set (hashlib_md5 env) (now_set clk) cache1 user_input
              (post_process env (translator kiosk) session resp0)
              (format_conversation_context session) = Inr cache2"
    by blast
  have st1: "cache_set (hashlib_md5 env) (now_set clk) cache1 user_input
              (post_process env (translator kiosk1) session resp0)
              (format_conversation_context session) = Inr cache2"
    using st same by simp
  have "kiosk_cache (snd (snd (snd (try_block env clk kiosk1 session (initial_metadata session)
            user_input)))) = cache2"
    using try_block_miss_cache [of user_input kiosk1 env clk session cr cache1 resp0 used mgr1 cache2]
      len ok g miss gr st1 same
    by simp
  with process_query_kiosk_cache [OF es]
  have "kiosk_cache (snd (process_query env clk kiosk user_input)) = cache2" by simp
  with cache_set_lookup [OF st]
  have stored: "map_of (cache (kiosk_cache (snd (process_query env clk kiosk user_input))))
           (generate_key (hashlib_md5 env) user_input (format_conversation_context session)) =
           Some \<lparr>response = post_process env (translator kiosk) session resp0,
                 timestamp = now_set clk, hits = 0\<rparr>"
    by simp
  show ?thesis
    using stored by (auto simp: post_process_def)
qed

lemma process_query_stores_post_processed_example:
  "map_of (cache (kiosk_cache (snd (process_query demo_translating_env demo_clock
                                      demo_spanish_kiosk ''hello'')))) ''hello'' =
     Some \<lparr>response = ''Hola'', timestamp = 20, hits = 0\<rparr>"
proof -
  let ?s = "demo_session\<lparr>preferred_language := ''es''\<rparr>"
  have es: "ensure_session demo_clock demo_spanish_kiosk = (?s, demo_spanish_kiosk)"
    by (simp add: ensure_session_def demo_spanish_kiosk_def)
  have ctx: "format_conversation_context ?s = []"
    by (simp add: format_conversation_context_def demo_session_def)
  have len: "int (length ''hello'') \<le> max_input_length (config demo_spanish_kiosk)"
    by (simp add: demo_defs demo_defs2)
  have ok: "\<not> is_inappropriate_content (config demo_spanish_kiosk) ''hello''"
    by (simp add: eval_defs demo_defs demo_defs2)
  have g: "cache_get (hashlib_md5 demo_translating_env) (now_get demo_clock)
             (kiosk_cache demo_spanish_kiosk) ''hello'' (format_conversation_context ?s) =
           (None, kiosk_cache demo_spanish_kiosk)"
    by (simp add: ctx eval_defs demo_defs demo_defs2)
  obtain mgr1 where gr: "get_response demo_translating_env (config demo_spanish_kiosk)
             (ai_manager demo_spanish_kiosk) ''hello'' (format_conversation_context ?s) =
           ((''Hello'', ''primary''), mgr1)"
    by (simp add: ctx eval_defs demo_defs demo_defs2)
  have room: "0 < max_size (kiosk_cache demo_spanish_kiosk)"
    by (simp add: demo_defs demo_defs2 IntelligentCache_init_def)
  have key: "generate_key (hashlib_md5 demo_translating_env) ''hello'' [] = ''hello''"
    by (simp add: eval_defs demo_defs demo_defs2)
  have tr: "post_process demo_translating_env (translator demo_spanish_kiosk) ?s ''Hello'' = ''Hola''"
    by (simp add: eval_defs demo_defs demo_defs2)
  from process_query_stores_post_processed [OF es len ok g _ gr room] ctx key tr
  show ?thesis by (simp add: demo_clock_def)
qed

text \<open>
  Claim C5: on a cache miss with a session language other than the default and a translation
  that succeeds, the response stored in the cache under the original key is the response of
  the dispatcher before translation. The code does not do this. A Spanish session asks
  \<open>hello\<close>; the turn passes both checks and misses the cache, the dispatcher answers
  \<open>Hello\<close> and the translation is \<open>Hola\<close>: the cache then holds \<open>Hola\<close>. The key has no
  language in it, so an English session that asks the same question afterwards is answered
  \<open>Hola\<close> from the cache, with the language \<open>en\<close> in its metadata.
\<close>

theorem translated_response_cached:
  "int (length ''hello'') \<le> max_input_length (config demo_spanish_kiosk) \<and>
   \<not> is_inappropriate_content (config demo_spanish_kiosk) ''hello'' \<and>
   fst (cache_get (hashlib_md5 demo_translating_env) (now_get demo_clock)
          (kiosk_cache demo_spanish_kiosk) ''hello'' []) = None \<and>
   fst (fst (get_response demo_translating_env (config demo_spanish_kiosk)
               (ai_manager demo_spanish_kiosk) ''hello'' [])) = ''Hello'' \<and>
   map_option response
     (map_of (cache (kiosk_cache (snd (process_query demo_translating_env demo_clock
                                         demo_spanish_kiosk ''hello''))))
        (generate_key (hashlib_md5 demo_translating_env) ''hello'' [])) = Some ''Hola'' \<and>
   fst (process_query demo_translating_env (demo_clock\<lparr>now_get := 40\<rparr>)
          ((snd (process_query demo_translating_env demo_clock demo_spanish_kiosk ''hello''))
             \<lparr>current_session := Some demo_session\<rparr>) ''hello'') =
     (''Hola'', \<lparr>cached = True, model_used = ''unknown'', response_time = 1, language = ''en'',
                error = None\<rparr>)"
proof -
  define after_first where
    "after_first = snd (process_query demo_translating_env demo_clock demo_spanish_kiosk ''hello'')"
  have first: "kiosk_cache after_first =
      \<lparr>ttl_hours = 24, max_size = 1000,
       cache = [(''hello'', \<lparr>response = ''Hola'', timestamp = 20, hits = 0\<rparr>)]\<rparr>"
    and cfg: "config after_first = demo_config"
    by (simp_all add: after_first_def process_query_def eval_defs demo_defs demo_defs2)
  have checks: "int (length ''hello'') \<le> max_input_length (config demo_spanish_kiosk)"
      "\<not> is_inappropriate_content (config demo_spanish_kiosk) ''hello''"
      "fst (cache_get (hashlib_md5 demo_translating_env) (now_get demo_clock)
          (kiosk_cache demo_spanish_kiosk) ''hello'' []) = None"
      "fst (fst (get_response demo_translating_env (config demo_spanish_kiosk)
               (ai_manager demo_spanish_kiosk) ''hello'' [])) = ''Hello''"
    by (simp_all add: eval_defs demo_defs demo_defs2)
  have key: "generate_key (hashlib_md5 demo_translating_env) ''hello'' [] = ''hello''"
    by (simp add: eval_defs demo_defs demo_defs2)
  have stored: "map_option response
     (map_of (cache (kiosk_cache after_first))
        (generate_key (hashlib_md5 demo_translating_env) ''hello'' [])) = Some ''Hola''"
    by (simp add: first key)
  have ctx: "format_conversation_context demo_session = []"
    by (simp add: format_conversation_context_def demo_session_def)
  have nf: "\<not> is_inappropriate_content demo_config ''hello''"
    by (simp add: eval_defs demo_defs)
  have len: "int (length ''hello'') \<le> max_input_length demo_config"
    by (simp add: demo_config_def)
  have lang: "preferred_language demo_session = ''en''" by (simp add: demo_session_def)
  have second: "fst (process_query demo_translating_env (demo_clock\<lparr>now_get := 40\<rparr>)
          (after_first\<lparr>current_session := Some demo_session\<rparr>) ''hello'') =
     (''Hola'', \<lparr>cached = True, model_used = ''unknown'', response_time = 1, language = ''en'',
                error = None\<rparr>)"
    using len nf
    by (simp add: process_query_def try_block_def ensure_session_def initial_metadata_def
        first cfg ctx key lang demo_clock_def cache_get_def timedelta_hours_def Let_def)
  from checks stored second show ?thesis unfolding after_first_def by blast
qed




end
